theory Spec2Isabelle
  imports Complex_Main "HOL-Library.Sublist"
begin

section \<open>Errors\<close>

text \<open>
  The TypeScript sources raise plain \<^verbatim>\<open>Error\<close> objects that differ only in their message.
  Each throw site of the sources is one constructor; \<open>message\<close> gives the text the source
  builds. \<open>ZodError\<close> is what parsing against a zod schema throws, with the path of the
  offending field. Failures of the external collaborators (the email fetch passed in as
  \<^verbatim>\<open>getEmailData\<close>, the thread fetch, the vendor SDK behind \<^verbatim>\<open>generateObject\<close>) are opaque to
  this code and carry whatever text the collaborator chose.
\<close>

datatype error =
    ApiKeyRequired string string
  | UnknownProvider string
  | UnsupportedProvider string
  | ZodError string
  | FetchFailed string
  | VendorFailed string

fun message :: "error \<Rightarrow> string" where
  "message (ApiKeyRequired var name) =
     var @ '' environment variable is required for '' @ name @ '' provider''"
| "message (UnknownProvider p) = ''Unknown provider: '' @ p"
| "message (UnsupportedProvider p) = ''Unsupported provider: '' @ p"
| "message (ZodError m) = m"
| "message (FetchFailed m) = m"
| "message (VendorFailed m) = m"

section \<open>LLM configuration (llm/config.ts)\<close>

text \<open>\<^verbatim>\<open>process.env\<close>: a variable is either unset or bound to a string.\<close>

type_synonym env = "string \<rightharpoonup> string"

text \<open>
  \<^verbatim>\<open>x || d\<close> on a value that is a string or undefined, as in
  \<^verbatim>\<open>process.env.X || d\<close>: undefined and the empty string are both falsy.
\<close>

definition str_or :: "string option \<Rightarrow> string \<Rightarrow> string" where
  "str_or v d = (case v of None \<Rightarrow> d | Some s \<Rightarrow> if s = [] then d else s)"

text \<open>
  \<^verbatim>\<open>interface LLMConfig { provider; model; apiKey }\<close>. The provider is typed as a union
  of three literals, but it is an unchecked cast of an environment string, so at run
  time it is any string.
\<close>

record LLMConfig =
  provider :: string
  model :: string
  apiKey :: string

text \<open>
  \<^verbatim>\<open>interface ModelTier { default; economy; chat? }\<close>; \<^verbatim>\<open>getLLMConfig\<close> never sets
  \<^verbatim>\<open>chat\<close>. The fields carry a suffix because \<open>default\<close> is a constant of HOL.
\<close>

record ModelTier =
  default_tier :: LLMConfig
  economy_tier :: LLMConfig

definition getDefaultModelForProvider :: "string \<Rightarrow> string" where
  "getDefaultModelForProvider p =
     (if p = ''anthropic'' then ''claude-sonnet-4-5-20250929''
      else if p = ''openai'' then ''gpt-4o''
      else if p = ''google'' then ''gemini-2.0-flash-exp''
      else ''claude-sonnet-4-5-20250929'')"

definition getEconomyModelForProvider :: "string \<Rightarrow> string" where
  "getEconomyModelForProvider p =
     (if p = ''anthropic'' then ''claude-haiku-4-5-20250929''
      else if p = ''openai'' then ''gpt-4o-mini''
      else if p = ''google'' then ''gemini-2.0-flash-exp''
      else ''claude-haiku-4-5-20250929'')"

text \<open>
  One key variable per provider; \<^verbatim>\<open>if (!key) throw\<close> rejects an unset variable and the
  empty string alike.
\<close>

definition requireKey :: "env \<Rightarrow> string \<Rightarrow> string \<Rightarrow> error + string" where
  "requireKey env var name =
     (case env var of
        None \<Rightarrow> Inl (ApiKeyRequired var name)
      | Some k \<Rightarrow> if k = [] then Inl (ApiKeyRequired var name) else Inr k)"

definition getApiKeyForProvider :: "env \<Rightarrow> string \<Rightarrow> error + string" where
  "getApiKeyForProvider env p =
     (if p = ''anthropic'' then requireKey env ''ANTHROPIC_API_KEY'' ''Anthropic''
      else if p = ''openai'' then requireKey env ''OPENAI_API_KEY'' ''OpenAI''
      else if p = ''google'' then requireKey env ''GOOGLE_AI_API_KEY'' ''Google''
      else Inl (UnknownProvider p))"

text \<open>
  \<^verbatim>\<open>getLLMConfig\<close>, statement by statement. The key of the default tier is looked up
  before the economy tier's model and key; the first throw ends the call.
\<close>

definition getLLMConfig :: "env \<Rightarrow> error + ModelTier" where
  "getLLMConfig env =
     (let provider = str_or (env ''LLM_PROVIDER'') ''anthropic'';
          economyProvider = str_or (env ''ECONOMY_LLM_PROVIDER'') provider;
          defaultModel = str_or (env ''LLM_MODEL'') (getDefaultModelForProvider provider)
      in case getApiKeyForProvider env provider of
           Inl e \<Rightarrow> Inl e
         | Inr defaultApiKey \<Rightarrow>
             (let economyModel =
                    str_or (env ''ECONOMY_LLM_MODEL'') (getEconomyModelForProvider economyProvider)
              in case getApiKeyForProvider env economyProvider of
                   Inl e \<Rightarrow> Inl e
                 | Inr economyApiKey \<Rightarrow>
                     Inr \<lparr> default_tier =
                             \<lparr> provider = provider, model = defaultModel,
                               apiKey = defaultApiKey \<rparr>,
                           economy_tier =
                             \<lparr> provider = economyProvider, model = economyModel,
                               apiKey = economyApiKey \<rparr> \<rparr>))"

subsection \<open>Token tracker\<close>

text \<open>
  \<^verbatim>\<open>interface ModelUsage\<close>. The fields \<^verbatim>\<open>provider\<close>, \<^verbatim>\<open>model\<close>, \<^verbatim>\<open>timestamp\<close> and \<^verbatim>\<open>operation\<close> carry
  the prefix \<open>u_\<close> here, since \<open>LLMConfig\<close> and the cache entry have fields of the same name.
  Times are milliseconds since the epoch.
\<close>

record ModelUsage =
  u_provider :: string
  u_model :: string
  inputTokens :: nat
  outputTokens :: nat
  u_timestamp :: int
  u_operation :: string

text \<open>\<^verbatim>\<open>class TokenTracker { private usage: ModelUsage[] }\<close>\<close>

record TokenTracker =
  usage :: "ModelUsage list"

text \<open>\<^verbatim>\<open>track\<close>: push, then keep the last 1000 (\<^verbatim>\<open>slice(-1000)\<close>).\<close>

definition track :: "TokenTracker \<Rightarrow> ModelUsage \<Rightarrow> TokenTracker" where
  "track t u =
     (let us = usage t @ [u]
      in if length us > 1000 then t\<lparr>usage := drop (length us - 1000) us\<rparr>
         else t\<lparr>usage := us\<rparr>)"


section \<open>Analysis results (the output schemas of ai-tools.ts)\<close>

datatype Category =
  NEWSLETTER | MARKETING | CALENDAR | RECEIPT | NOTIFICATION | PERSONAL | WORK | COLD_EMAIL

datatype ColdEmailType = SALES | RECRUITMENT | PARTNERSHIP | LEGITIMATE | UNKNOWN

datatype SuggestedAction = ARCHIVE | LABEL_COLD | ALLOW | REVIEW

text \<open>
  The three result shapes. \<^verbatim>\<open>category\<close>, \<^verbatim>\<open>confidence\<close>, \<^verbatim>\<open>reasoning\<close> and \<^verbatim>\<open>summary\<close> occur
  in several shapes of the source; a prefix keeps the field names apart here.
\<close>

record CategorizationResult =
  cat_category :: Category
  cat_confidence :: real
  cat_reasoning :: string
  suggestedLabels :: "string list option"

record ColdEmailResult =
  isColdEmail :: bool
  coldEmailType :: ColdEmailType
  cold_confidence :: real
  cold_reasoning :: string
  suggestedAction :: SuggestedAction

text \<open>\<^verbatim>\<open>people\<close> entries are (name, email, role?), \<^verbatim>\<open>dates\<close> entries are (date, context).\<close>

record ContextExtractionResult =
  ctx_summary :: string
  keyPoints :: "string list"
  actionItems :: "string list"
  people :: "(string \<times> string \<times> string option) list"
  dates :: "(string \<times> string) list"
  relevantContext :: string
  ctx_confidence :: real

text \<open>
  The cache stores \<^verbatim>\<open>any\<close> and the facades return what they find there, so one type
  holds every object that flows through them.
\<close>

datatype analysis =
    Categorization CategorizationResult
  | ColdDetection ColdEmailResult
  | ContextExtraction ContextExtractionResult

datatype schema =
  CategorizationResultSchema | ColdEmailResultSchema | ContextExtractionResultSchema

section \<open>The result cache (class LLMCache of llm/provider.ts)\<close>

record cache_entry =
  data :: analysis
  timestamp :: int

text \<open>
  \<^verbatim>\<open>private cache = new Map(); private ttl = 60 * 60 * 1000\<close>. The methods carry the
  prefix \<open>cache_\<close> (\<open>set\<close> is a constant of HOL). The clock reading of
  \<^verbatim>\<open>new Date()\<close> / \<^verbatim>\<open>Date.now()\<close> is the argument \<open>t\<close>, in milliseconds.
\<close>

record LLMCache =
  cache :: "string \<rightharpoonup> cache_entry"
  ttl :: int

definition new_LLMCache :: LLMCache where
  "new_LLMCache = \<lparr> cache = Map.empty, ttl = 60 * 60 * 1000 \<rparr>"

definition cache_set :: "LLMCache \<Rightarrow> int \<Rightarrow> string \<Rightarrow> analysis \<Rightarrow> LLMCache" where
  "cache_set c t key d = c\<lparr>cache := (cache c)(key \<mapsto> \<lparr> data = d, timestamp = t \<rparr>)\<rparr>"

definition cache_get :: "LLMCache \<Rightarrow> int \<Rightarrow> string \<Rightarrow> analysis option \<times> LLMCache" where
  "cache_get c t key =
     (case cache c key of
        None \<Rightarrow> (None, c)
      | Some entry \<Rightarrow>
          if t - timestamp entry > ttl c
          then (None, c\<lparr>cache := (cache c)(key := None)\<rparr>)
          else (Some (data entry), c))"

definition cache_has :: "LLMCache \<Rightarrow> int \<Rightarrow> string \<Rightarrow> bool \<times> LLMCache" where
  "cache_has c t key = (case cache_get c t key of (r, c') \<Rightarrow> (r \<noteq> None, c'))"

definition cache_clear :: "LLMCache \<Rightarrow> LLMCache" where
  "cache_clear c = c\<lparr>cache := Map.empty\<rparr>"

section \<open>The world: shared singletons, clock and observable effects\<close>

text \<open>
  Every effect of the code on something outside the call is an event of the trace, in
  the order the code performs it: a call of the external email fetch, a read or a write
  of the shared cache, a call of the vendor through \<^verbatim>\<open>generateObject\<close> (with the schema it
  was asked for), a line on \<^verbatim>\<open>console.error\<close>.
\<close>

datatype event =
    EvFetch string
  | EvFetchThread string
  | EvCacheGet string
  | EvCacheSet string
  | EvVendor schema
  | EvConsoleError string

text \<open>
  \<open>llmCache\<close> and \<open>tokenTracker\<close> are the two exported singletons; \<open>now\<close> is the clock
  that \<^verbatim>\<open>new Date()\<close> reads. A call reads one instant throughout: the clock moves
  between calls, when a caller sets \<open>now\<close>.
\<close>

record world =
  llmCache :: LLMCache
  tokenTracker :: TokenTracker
  now :: int
  trace :: "event list"

definition emit :: "event \<Rightarrow> world \<Rightarrow> world" where
  "emit ev w = w\<lparr>trace := trace w @ [ev]\<rparr>"

definition llmCache_get :: "string \<Rightarrow> world \<Rightarrow> analysis option \<times> world" where
  "llmCache_get key w =
     (case cache_get (llmCache w) (now w) key of
        (r, c') \<Rightarrow> (r, emit (EvCacheGet key) (w\<lparr>llmCache := c'\<rparr>)))"

definition llmCache_set :: "string \<Rightarrow> analysis \<Rightarrow> world \<Rightarrow> world" where
  "llmCache_set key d w =
     emit (EvCacheSet key) (w\<lparr>llmCache := cache_set (llmCache w) (now w) key d\<rparr>)"

text \<open>
  An asynchronous computation of the source: it ends with a value or a thrown error,
  and leaves the world changed.
\<close>

type_synonym 'a io = "world \<Rightarrow> (error + 'a) \<times> world"

text \<open>\<open>andThen m f\<close>: \<^verbatim>\<open>const x = await m; ...f(x)\<close>, where a throw of \<open>m\<close> ends the block.\<close>

definition andThen :: "(error + 'a) \<times> world \<Rightarrow> ('a \<Rightarrow> 'b io) \<Rightarrow> (error + 'b) \<times> world" where
  "andThen m f = (case m of (Inl e, w) \<Rightarrow> (Inl e, w) | (Inr x, w) \<Rightarrow> f x w)"

text \<open>
  An external fetch capability: what it answers for an identifier is the function \<open>f\<close>;
  calling it is an event.
\<close>

definition external_fetch :: "(string \<Rightarrow> error + 'a) \<Rightarrow> string \<Rightarrow> 'a io" where
  "external_fetch f messageId w = (f messageId, emit (EvFetch messageId) w)"

section \<open>Prompts (llm/prompts.ts)\<close>

text \<open>\<^verbatim>\<open>xs.join(sep)\<close>\<close>

fun join :: "string \<Rightarrow> string list \<Rightarrow> string" where
  "join sep [] = []"
| "join sep [x] = x"
| "join sep (x # y # ys) = x @ sep @ join sep (y # ys)"

text \<open>The decimal text of a non-negative integer, as a template literal prints it.\<close>

fun show_nat :: "nat \<Rightarrow> string" where
  "show_nat n =
     (if n < 10 then [''0123456789'' ! n]
      else show_nat (n div 10) @ [''0123456789'' ! (n mod 10)])"

declare show_nat.simps [simp del]

text \<open>
  \<^verbatim>\<open>getCategorizationPrompt\<close>: \<^verbatim>\<open>customCategories?.length\<close> is falsy for an absent and
  for an empty list.
\<close>

definition categories_text :: "string list option \<Rightarrow> string" where
  "categories_text customCategories =
     (case customCategories of
        None \<Rightarrow> ''NEWSLETTER, MARKETING, CALENDAR, RECEIPT, NOTIFICATION, PERSONAL, WORK, COLD_EMAIL''
      | Some cs \<Rightarrow>
          if cs = []
          then ''NEWSLETTER, MARKETING, CALENDAR, RECEIPT, NOTIFICATION, PERSONAL, WORK, COLD_EMAIL''
          else join '', '' cs)"

definition categorization_system :: "string \<Rightarrow> string" where
  "categorization_system categories =
     ''You are an expert email categorization system. Analyze emails and categorize them accurately.\<newline>'' @
     ''\<newline>'' @
     ''Categories:\<newline>'' @
     ''- NEWSLETTER: Regular newsletters, digests, blog updates\<newline>'' @
     ''- MARKETING: Promotional emails, sales, special offers\<newline>'' @
     ''- CALENDAR: Meeting invites, event notifications, calendar updates\<newline>'' @
     ''- RECEIPT: Purchase confirmations, invoices, payment receipts\<newline>'' @
     ''- NOTIFICATION: System notifications, alerts, status updates\<newline>'' @
     ''- PERSONAL: Personal correspondence from known contacts\<newline>'' @
     ''- WORK: Work-related emails from colleagues or clients\<newline>'' @
     ''- COLD_EMAIL: Unsolicited sales, recruitment, partnership requests\<newline>'' @
     ''\<newline>'' @
     ''Categorization Guidelines:\<newline>'' @
     ''- Use specific indicators in subject, sender domain, and content\<newline>'' @
     ''- Newsletters typically have \"unsubscribe\" links and regular sending patterns\<newline>'' @
     ''- Marketing emails emphasize offers, discounts, limited-time deals\<newline>'' @
     ''- Receipts contain order numbers, amounts, transaction IDs\<newline>'' @
     ''- Cold emails often request meetings, demos, or introduce unknown services\<newline>'' @
     ''- Be precise - avoid PERSONAL category unless clearly from a known contact\<newline>'' @
     ''\<newline>'' @
     ''Available categories: '' @
     categories"

definition categorization_prompt :: "string \<Rightarrow> string \<Rightarrow> string \<Rightarrow> string" where
  "categorization_prompt from_addr subject snippet =
     ''Categorize this email:\<newline>'' @
     ''\<newline>'' @
     ''From: '' @
     from_addr @
     ''\<newline>'' @
     ''Subject: '' @
     subject @
     ''\<newline>'' @
     ''Snippet: '' @
     snippet @
     ''\<newline>'' @
     ''\<newline>'' @
     ''Provide the category, confidence score (0.0-1.0), reasoning, and suggested Gmail labels.''"

text \<open>The pair is (system, prompt).\<close>

definition getCategorizationPrompt ::
  "string \<Rightarrow> string \<Rightarrow> string \<Rightarrow> string list option \<Rightarrow> string \<times> string" where
  "getCategorizationPrompt from_addr subject snippet customCategories =
     (categorization_system (categories_text customCategories),
      categorization_prompt from_addr subject snippet)"

text \<open>\<^verbatim>\<open>userProfile?: { company?, role?, interests? }\<close>\<close>

record UserProfile =
  company :: "string option"
  role :: "string option"
  interests :: "string list option"

definition profileContext :: "UserProfile option \<Rightarrow> string" where
  "profileContext userProfile =
     (case userProfile of
        None \<Rightarrow> []
      | Some p \<Rightarrow>
          ''\<newline>'' @
          ''User Context:\<newline>'' @
          ''- Company: '' @
          str_or (company p) ''Unknown'' @
          ''\<newline>'' @
          ''- Role: '' @
          str_or (role p) ''Unknown'' @
          ''\<newline>'' @
          ''- Interests: '' @
          str_or (map_option (join '', '') (interests p)) ''Not specified'' @
          ''\<newline>'')"

definition cold_email_system :: string where
  "cold_email_system =
     ''You are an expert at detecting cold emails (unsolicited outreach).\<newline>'' @
     ''\<newline>'' @
     ''Examples of COLD EMAILS:\<newline>'' @
     ''- Sales pitches for products/services the recipient didn't request\<newline>'' @
     ''- Recruitment emails from unknown recruiters\<newline>'' @
     ''- Partnership requests from companies without prior relationship\<newline>'' @
     ''- Marketing agencies offering services (SEO, web design, etc.)\<newline>'' @
     ''- Investors or VCs reaching out cold\<newline>'' @
     ''- Conference or event promotions\<newline>'' @
     ''\<newline>'' @
     ''Examples of LEGITIMATE EMAILS:\<newline>'' @
     ''- Emails from known contacts or colleagues\<newline>'' @
     ''- Replies to previous conversations\<newline>'' @
     ''- Newsletters the user subscribed to\<newline>'' @
     ''- Transactional emails (receipts, password resets, notifications)\<newline>'' @
     ''- Emails from clients or customers\<newline>'' @
     ''- Community or forum notifications\<newline>'' @
     ''\<newline>'' @
     ''Key Indicators of Cold Emails:\<newline>'' @
     ''- No prior relationship or context\<newline>'' @
     ''- Generic greetings (\"I hope this email finds you well\")\<newline>'' @
     ''- Emphasis on scheduling calls or demos\<newline>'' @
     ''- Mentions of \"quick chat\" or \"picking your brain\"\<newline>'' @
     ''- Sender researched you on LinkedIn or your website\<newline>'' @
     ''- Offers solutions to problems you didn't mention\<newline>'' @
     ''\<newline>'' @
     ''Be conservative - only mark as cold email if clearly unsolicited outreach.''"

definition cold_email_prompt :: "string \<Rightarrow> string \<Rightarrow> string \<Rightarrow> string \<Rightarrow> string" where
  "cold_email_prompt ctx from_addr subject body =
     ''Analyze if this is a cold email:\<newline>'' @
     ctx @
     ''\<newline>'' @
     ''From: '' @
     from_addr @
     ''\<newline>'' @
     ''Subject: '' @
     subject @
     ''\<newline>'' @
     ''\<newline>'' @
     ''Email Body:\<newline>'' @
     body @
     ''\<newline>'' @
     ''\<newline>'' @
     ''Determine if this is a cold email, classify the type (SALES, RECRUITMENT, PARTNERSHIP, LEGITIMATE, UNKNOWN), provide confidence score, reasoning, and suggested action.''"

definition getColdEmailPrompt ::
  "string \<Rightarrow> string \<Rightarrow> string \<Rightarrow> UserProfile option \<Rightarrow> string \<times> string" where
  "getColdEmailPrompt from_addr subject body userProfile =
     (cold_email_system,
      cold_email_prompt (profileContext userProfile) from_addr subject body)"

text \<open>
  A thread message is (from, subject, body). \<^verbatim>\<open>substring(0, 500)\<close> and \<^verbatim>\<open>length\<close> count
  UTF-16 code units in JavaScript; here a string is the list of its characters, and the
  two agree on a body without characters outside the Basic Multilingual Plane. No
  property below depends on where a body is cut.
\<close>

type_synonym thread_message = "string \<times> string \<times> string"

definition threadMessage :: "nat \<Rightarrow> thread_message \<Rightarrow> string" where
  "threadMessage i msg =
     (case msg of (from_addr, subject, body) \<Rightarrow>
        ''\<newline>'' @
        ''[Message '' @ show_nat (i + 1) @ '']\<newline>'' @
        ''From: '' @ from_addr @ ''\<newline>'' @
        ''Subject: '' @ subject @ ''\<newline>'' @
        ''Body: '' @ take 500 body @ (if length body > 500 then ''...'' else []) @
        ''\<newline>'')"

definition threadContext :: "thread_message list option \<Rightarrow> string" where
  "threadContext threadHistory =
     (case threadHistory of
        None \<Rightarrow> []
      | Some h \<Rightarrow>
          if h = [] then []
          else
            ''\<newline>'' @
            ''Thread History ('' @ show_nat (length h) @ '' previous messages):\<newline>'' @
            join ''\<newline>'' (map (\<lambda>(i, msg). threadMessage i msg) (enumerate 0 h)) @
            ''\<newline>'')"

definition context_system :: string where
  "context_system =
     ''You are an expert at extracting key information from emails for AI agent context.\<newline>'' @
     ''\<newline>'' @
     ''Your goal is to provide actionable context that helps AI agents understand:\<newline>'' @
     ''- What is the main purpose of this email?\<newline>'' @
     ''- What are the key points or decisions discussed?\<newline>'' @
     ''- What action items or commitments were made?\<newline>'' @
     ''- Who are the relevant people and their roles?\<newline>'' @
     ''- What are important dates or deadlines?\<newline>'' @
     ''\<newline>'' @
     ''Extraction Guidelines:\<newline>'' @
     ''- Be concise but comprehensive (max 500 characters for summary)\<newline>'' @
     ''- Extract specific action items, not general statements\<newline>'' @
     ''- Include people with their context (role, relationship)\<newline>'' @
     ''- Date extraction should include the context (e.g., \"meeting on Jan 15\" not just \"Jan 15\")\<newline>'' @
     ''- Focus on information useful for decision-making\<newline>'' @
     ''- Skip pleasantries and focus on substance\<newline>'' @
     ''- Use bullet points for key points (no bullet characters, just newlines)''"

definition context_prompt :: "string \<Rightarrow> string \<Rightarrow> string \<Rightarrow> string \<Rightarrow> string" where
  "context_prompt ctx from_addr subject body =
     ''Extract key context from this email thread for AI agent usage:\<newline>'' @
     ctx @
     ''\<newline>'' @
     ''\<newline>'' @
     ''Current Email:\<newline>'' @
     ''From: '' @
     from_addr @
     ''\<newline>'' @
     ''Subject: '' @
     subject @
     ''\<newline>'' @
     ''Body: '' @
     body @
     ''\<newline>'' @
     ''\<newline>'' @
     ''Provide: summary (1-2 sentences), keyPoints (array), actionItems (array), people (array with name/email/role), dates (array with date/context), and relevantContext (combined text optimized for agent consumption).''"

definition getContextExtractionPrompt ::
  "string \<Rightarrow> string \<Rightarrow> string \<Rightarrow> thread_message list option \<Rightarrow> string \<times> string" where
  "getContextExtractionPrompt from_addr subject body threadHistory =
     (context_system, context_prompt (threadContext threadHistory) from_addr subject body)"

section \<open>Structured output (llm/provider.ts)\<close>

text \<open>The SDK instance \<^verbatim>\<open>getProvider\<close> creates, with the API key it was given.\<close>

datatype sdk = AnthropicSDK string | OpenAISDK string | GoogleSDK string

definition getProvider :: "LLMConfig \<Rightarrow> error + sdk" where
  "getProvider config =
     (if provider config = ''anthropic'' then Inr (AnthropicSDK (apiKey config))
      else if provider config = ''openai'' then Inr (OpenAISDK (apiKey config))
      else if provider config = ''google'' then Inr (GoogleSDK (apiKey config))
      else Inl (UnsupportedProvider (provider config)))"

text \<open>
  What \<^verbatim>\<open>generateObject\<close> of the vendor SDK resolves to: the validated object and,
  when the vendor reports them, (promptTokens, completionTokens).
\<close>

record GenerateObjectResult =
  object :: analysis
  gen_usage :: "(nat \<times> nat) option"

text \<open>
  The vendor behind \<^verbatim>\<open>generateObject({model: provider(model), schema, prompt, system})\<close>
  is a parameter of the model: a function of the SDK instance, the model name, the
  schema, the prompt and the system instruction, which answers or rejects.
\<close>

type_synonym vendor =
  "sdk \<Rightarrow> string \<Rightarrow> schema \<Rightarrow> string \<Rightarrow> string option \<Rightarrow> error + GenerateObjectResult"

datatype tier = Default | Economy

text \<open>
  \<^verbatim>\<open>generateStructuredOutput\<close>. \<^verbatim>\<open>getLLMConfig()\<close> runs before the \<^verbatim>\<open>try\<close>; a throw inside
  the \<^verbatim>\<open>try\<close> is written to \<^verbatim>\<open>console.error\<close> and thrown again.
\<close>

definition generateStructuredOutput ::
  "env \<Rightarrow> vendor \<Rightarrow> string \<Rightarrow> schema \<Rightarrow> string option \<Rightarrow> tier option \<Rightarrow> string option
     \<Rightarrow> analysis io" where
  "generateStructuredOutput env generateObject prompt schema system tier operation w =
     (case getLLMConfig env of
        Inl e \<Rightarrow> (Inl e, w)
      | Inr config \<Rightarrow>
          (let llmConfig = (if tier = Some Economy then economy_tier config
                            else default_tier config)
           in case getProvider llmConfig of
                Inl e \<Rightarrow> (Inl e, emit (EvConsoleError ''Error generating structured output:'') w)
              | Inr sdk_instance \<Rightarrow>
                  (let w1 = emit (EvVendor schema) w
                   in case generateObject sdk_instance (model llmConfig) schema prompt system of
                        Inl e \<Rightarrow>
                          (Inl e, emit (EvConsoleError ''Error generating structured output:'') w1)
                      | Inr result \<Rightarrow>
                          (Inr (object result),
                           (case gen_usage result of
                              None \<Rightarrow> w1
                            | Some (promptTokens, completionTokens) \<Rightarrow>
                                w1\<lparr>tokenTracker :=
                                     track (tokenTracker w1)
                                       \<lparr> u_provider = provider llmConfig,
                                         u_model = model llmConfig,
                                         inputTokens = promptTokens,
                                         outputTokens = completionTokens,
                                         u_timestamp = now w1,
                                         u_operation =
                                           str_or operation ''structured_output'' \<rparr>\<rparr>)))))"

section \<open>The analysis facades (ai-tools.ts)\<close>

text \<open>
  The email data a facade reads is the triple (from, subject, snippet) for
  \<^verbatim>\<open>categorizeEmail\<close> and (from, subject, body) for the other two. The object parameter
  \<^verbatim>\<open>params\<close> of each facade is spread into arguments.
\<close>

type_synonym email3 = "string \<times> string \<times> string"

text \<open>The cache keys \<^verbatim>\<open>`categorize:${params.messageId}`\<close> and \<^verbatim>\<open>`cold:${emailData.from}`\<close>.\<close>

definition categorize_key :: "string \<Rightarrow> string" where
  "categorize_key messageId = ''categorize:'' @ messageId"

definition cold_key :: "string \<Rightarrow> string" where
  "cold_key from_addr = ''cold:'' @ from_addr"

definition categorizeEmail ::
  "env \<Rightarrow> vendor \<Rightarrow> string \<Rightarrow> string list option \<Rightarrow> (string \<Rightarrow> email3 io) \<Rightarrow> analysis io" where
  "categorizeEmail env generateObject messageId categories getEmailData w =
     (let cacheKey = categorize_key messageId
      in case llmCache_get cacheKey w of
           (Some cached, w1) \<Rightarrow> (Inr cached, w1)
         | (None, w1) \<Rightarrow>
             andThen (getEmailData messageId w1)
               (\<lambda>(from_addr, subject, snippet) w2.
                  case getCategorizationPrompt from_addr subject snippet categories of
                    (system, prompt) \<Rightarrow>
                      andThen
                        (generateStructuredOutput env generateObject prompt
                           CategorizationResultSchema (Some system) (Some Economy)
                           (Some ''categorize_email'') w2)
                        (\<lambda>result w3. (Inr result, llmCache_set cacheKey result w3))))"

text \<open>
  \<^verbatim>\<open>getThreadData\<close> is an optional capability; calling the external one is an event.
  \<^verbatim>\<open>params.threadId && getThreadData\<close> needs a non-empty thread identifier, and
  \<^verbatim>\<open>params.maxHistoryMessages || 10\<close> replaces 0 by 10.
\<close>

definition external_fetch_thread ::
  "(string \<Rightarrow> int \<Rightarrow> error + thread_message list) \<Rightarrow> string \<Rightarrow> int \<Rightarrow> thread_message list io" where
  "external_fetch_thread f threadId maxMessages w =
     (f threadId maxMessages, emit (EvFetchThread threadId) w)"

definition fetchThreadHistory ::
  "string option \<Rightarrow> int \<Rightarrow> (string \<Rightarrow> int \<Rightarrow> thread_message list io) option
     \<Rightarrow> thread_message list option io" where
  "fetchThreadHistory threadId maxHistoryMessages getThreadData w =
     (case (threadId, getThreadData) of
        (Some t, Some g) \<Rightarrow>
          if t = [] then (Inr None, w)
          else andThen (g t (if maxHistoryMessages = 0 then 10 else maxHistoryMessages) w)
                 (\<lambda>h w'. (Inr (Some h), w'))
      | _ \<Rightarrow> (Inr None, w))"

definition extractEmailContext ::
  "env \<Rightarrow> vendor \<Rightarrow> string \<Rightarrow> string option \<Rightarrow> int \<Rightarrow> (string \<Rightarrow> email3 io)
     \<Rightarrow> (string \<Rightarrow> int \<Rightarrow> thread_message list io) option \<Rightarrow> analysis io" where
  "extractEmailContext env generateObject messageId threadId maxHistoryMessages
       getEmailData getThreadData w =
     andThen (getEmailData messageId w)
       (\<lambda>(from_addr, subject, body) w1.
          andThen (fetchThreadHistory threadId maxHistoryMessages getThreadData w1)
            (\<lambda>threadHistory w2.
               case getContextExtractionPrompt from_addr subject body threadHistory of
                 (system, prompt) \<Rightarrow>
                   generateStructuredOutput env generateObject prompt
                     ContextExtractionResultSchema (Some system) (Some Default)
                     (Some ''extract_context'') w2))"

definition detectColdEmail ::
  "env \<Rightarrow> vendor \<Rightarrow> string \<Rightarrow> UserProfile option \<Rightarrow> (string \<Rightarrow> email3 io) \<Rightarrow> analysis io" where
  "detectColdEmail env generateObject messageId userProfile getEmailData w =
     andThen (getEmailData messageId w)
       (\<lambda>(from_addr, subject, body) w1.
          let cacheKey = cold_key from_addr
          in case llmCache_get cacheKey w1 of
               (Some cached, w2) \<Rightarrow> (Inr cached, w2)
             | (None, w2) \<Rightarrow>
                 (case getColdEmailPrompt from_addr subject body userProfile of
                    (system, prompt) \<Rightarrow>
                      andThen
                        (generateStructuredOutput env generateObject prompt
                           ColdEmailResultSchema (Some system) (Some Economy)
                           (Some ''detect_cold_email'') w2)
                        (\<lambda>result w3. (Inr result, llmCache_set cacheKey result w3))))"

section \<open>The batch orchestrator (ai-tools.ts)\<close>

datatype analysisType = AT_categorize | AT_context | AT_cold_detection

text \<open>What \<^verbatim>\<open>getEmailData\<close> of the batch resolves to; \<^verbatim>\<open>body\<close> is optional.\<close>

record EmailData =
  from_addr :: string
  subject :: string
  snippet :: string
  body :: "string option"

text \<open>
  One entry of \<^verbatim>\<open>results\<close>. The optional fields \<^verbatim>\<open>category\<close>, \<^verbatim>\<open>context\<close> and
  \<^verbatim>\<open>coldDetection\<close> carry the prefix \<open>item_\<close>.
\<close>

record BatchItem =
  messageId :: string
  item_category :: "analysis option"
  item_context :: "analysis option"
  item_coldDetection :: "analysis option"

record RecommendedAction =
  ra_messageId :: string
  action :: string
  ra_reasoning :: string

record BatchOutcome =
  results :: "BatchItem list"
  summary :: string
  recommendedActions :: "RecommendedAction list"

text \<open>\<^verbatim>\<open>options?: { autoApplyLabels: boolean, generateSummary: boolean }\<close>, after parsing.\<close>

record BatchOptions =
  autoApplyLabels :: bool
  generateSummary :: bool

text \<open>
  The three guarded steps of the \<^verbatim>\<open>try\<close> block. Each facade is handed a closure that
  resolves to the data fetched once for the item, so it performs no fetch of its own.
  \<^verbatim>\<open>&& emailData.body\<close> needs a body that is present and not empty.
\<close>

definition step_categorize ::
  "env \<Rightarrow> vendor \<Rightarrow> analysisType list \<Rightarrow> string \<Rightarrow> EmailData \<Rightarrow> BatchItem \<Rightarrow> BatchItem io" where
  "step_categorize env generateObject analysisTypes mid emailData result w =
     (if AT_categorize \<in> set analysisTypes
      then andThen
             (categorizeEmail env generateObject mid None
                (\<lambda>_ w'. (Inr (from_addr emailData, subject emailData, snippet emailData), w')) w)
             (\<lambda>c w'. (Inr (result\<lparr>item_category := Some c\<rparr>), w'))
      else (Inr result, w))"

definition step_context ::
  "env \<Rightarrow> vendor \<Rightarrow> analysisType list \<Rightarrow> string \<Rightarrow> EmailData \<Rightarrow> BatchItem \<Rightarrow> BatchItem io" where
  "step_context env generateObject analysisTypes mid emailData result w =
     (case body emailData of
        None \<Rightarrow> (Inr result, w)
      | Some b \<Rightarrow>
          if AT_context \<in> set analysisTypes \<and> b \<noteq> []
          then andThen
                 (extractEmailContext env generateObject mid None 10
                    (\<lambda>_ w'. (Inr (from_addr emailData, subject emailData, b), w')) None w)
                 (\<lambda>c w'. (Inr (result\<lparr>item_context := Some c\<rparr>), w'))
          else (Inr result, w))"

definition step_cold ::
  "env \<Rightarrow> vendor \<Rightarrow> analysisType list \<Rightarrow> string \<Rightarrow> EmailData \<Rightarrow> BatchItem \<Rightarrow> BatchItem io" where
  "step_cold env generateObject analysisTypes mid emailData result w =
     (case body emailData of
        None \<Rightarrow> (Inr result, w)
      | Some b \<Rightarrow>
          if AT_cold_detection \<in> set analysisTypes \<and> b \<noteq> []
          then andThen
                 (detectColdEmail env generateObject mid None
                    (\<lambda>_ w'. (Inr (from_addr emailData, subject emailData, b), w')) w)
                 (\<lambda>c w'. (Inr (result\<lparr>item_coldDetection := Some c\<rparr>), w'))
          else (Inr result, w))"

text \<open>The body of the \<^verbatim>\<open>try\<close> block for one identifier, up to \<^verbatim>\<open>results.push\<close>.\<close>

definition process_item ::
  "env \<Rightarrow> vendor \<Rightarrow> (string \<Rightarrow> EmailData io) \<Rightarrow> analysisType list \<Rightarrow> string \<Rightarrow> BatchItem io" where
  "process_item env generateObject getEmailData analysisTypes mid w =
     andThen (getEmailData mid w)
       (\<lambda>emailData w1.
          andThen
            (step_categorize env generateObject analysisTypes mid emailData
               \<lparr> messageId = mid, item_category = None, item_context = None,
                 item_coldDetection = None \<rparr> w1)
            (\<lambda>r1 w2.
               andThen (step_context env generateObject analysisTypes mid emailData r1 w2)
                 (\<lambda>r2 w3. step_cold env generateObject analysisTypes mid emailData r2 w3)))"

text \<open>
  The \<^verbatim>\<open>for\<close> loop with its \<^verbatim>\<open>try\<close>/\<^verbatim>\<open>catch\<close>: a produced record is pushed, a throw is
  logged and the loop goes on with the next identifier. \<open>acc\<close> is the array
  \<^verbatim>\<open>results\<close> built so far.
\<close>

fun batch_loop ::
  "env \<Rightarrow> vendor \<Rightarrow> (string \<Rightarrow> EmailData io) \<Rightarrow> analysisType list \<Rightarrow> string list
     \<Rightarrow> BatchItem list \<Rightarrow> world \<Rightarrow> BatchItem list \<times> world" where
  "batch_loop env generateObject getEmailData analysisTypes [] acc w = (acc, w)"
| "batch_loop env generateObject getEmailData analysisTypes (mid # rest) acc w =
     (case process_item env generateObject getEmailData analysisTypes mid w of
        (Inr result, w') \<Rightarrow>
          batch_loop env generateObject getEmailData analysisTypes rest (acc @ [result]) w'
      | (Inl e, w') \<Rightarrow>
          batch_loop env generateObject getEmailData analysisTypes rest acc
            (emit (EvConsoleError (''Error analyzing email '' @ mid @ '':'')) w'))"

subsection \<open>Summary and recommendations\<close>

fun category_name :: "Category \<Rightarrow> string" where
  "category_name NEWSLETTER = ''NEWSLETTER''"
| "category_name MARKETING = ''MARKETING''"
| "category_name CALENDAR = ''CALENDAR''"
| "category_name RECEIPT = ''RECEIPT''"
| "category_name NOTIFICATION = ''NOTIFICATION''"
| "category_name PERSONAL = ''PERSONAL''"
| "category_name WORK = ''WORK''"
| "category_name COLD_EMAIL = ''COLD_EMAIL''"

fun coldEmailType_name :: "ColdEmailType \<Rightarrow> string" where
  "coldEmailType_name SALES = ''SALES''"
| "coldEmailType_name RECRUITMENT = ''RECRUITMENT''"
| "coldEmailType_name PARTNERSHIP = ''PARTNERSHIP''"
| "coldEmailType_name LEGITIMATE = ''LEGITIMATE''"
| "coldEmailType_name UNKNOWN = ''UNKNOWN''"

fun suggestedAction_name :: "SuggestedAction \<Rightarrow> string" where
  "suggestedAction_name ARCHIVE = ''ARCHIVE''"
| "suggestedAction_name LABEL_COLD = ''LABEL_COLD''"
| "suggestedAction_name ALLOW = ''ALLOW''"
| "suggestedAction_name REVIEW = ''REVIEW''"

text \<open>
  \<^verbatim>\<open>r.category.category\<close> used as a property key, and \<^verbatim>\<open>r.coldDetection?.isColdEmail\<close>
  used as a condition. An object of another shape has no such property: the key is
  then the text of \<^verbatim>\<open>undefined\<close> and the condition is falsy.
\<close>

fun category_key :: "analysis \<Rightarrow> string" where
  "category_key (Categorization c) = category_name (cat_category c)"
| "category_key _ = ''undefined''"

fun is_cold :: "analysis option \<Rightarrow> bool" where
  "is_cold (Some (ColdDetection c)) = isColdEmail c"
| "is_cold _ = False"

text \<open>
  \<^verbatim>\<open>categoryCount\<close>: the keys of the object in insertion order, as \<^verbatim>\<open>Object.entries\<close> lists
  them; \<open>bump\<close> is \<^verbatim>\<open>categoryCount[k] = (categoryCount[k] || 0) + 1\<close>.
\<close>

fun bump :: "(string \<times> nat) list \<Rightarrow> string \<Rightarrow> (string \<times> nat) list" where
  "bump [] k = [(k, 1)]"
| "bump ((k', n) # rest) k = (if k' = k then (k', n + 1) # rest else (k', n) # bump rest k)"

definition categoryCount :: "BatchItem list \<Rightarrow> (string \<times> nat) list" where
  "categoryCount rs =
     foldl (\<lambda>counts r. case item_category r of
                           None \<Rightarrow> counts
                         | Some a \<Rightarrow> bump counts (category_key a)) [] rs"

definition coldEmailCount :: "BatchItem list \<Rightarrow> nat" where
  "coldEmailCount rs = length (filter (\<lambda>r. is_cold (item_coldDetection r)) rs)"

definition summary_text :: "BatchItem list \<Rightarrow> string" where
  "summary_text rs =
     ''Analyzed '' @ show_nat (length rs) @ '' emails:\<newline>'' @
     concat (map (\<lambda>(cat, count). ''- '' @ cat @ '': '' @ show_nat count @ ''\<newline>'')
               (categoryCount rs)) @
     (if coldEmailCount rs > 0
      then ''\<newline>'' @ show_nat (coldEmailCount rs) @ '' cold emails detected''
      else [])"

text \<open>The entries one result record adds to \<^verbatim>\<open>recommendedActions\<close>: one or none.\<close>

fun recommend :: "BatchItem \<Rightarrow> RecommendedAction list" where
  "recommend r =
     (case item_coldDetection r of
        Some (ColdDetection c) \<Rightarrow>
          if isColdEmail c \<and> suggestedAction c \<noteq> ALLOW
          then [\<lparr> ra_messageId = messageId r,
                  action = suggestedAction_name (suggestedAction c),
                  ra_reasoning = ''Cold '' @ coldEmailType_name (coldEmailType c) @
                                 '' email: '' @ cold_reasoning c \<rparr>]
          else []
      | _ \<Rightarrow> [])"

text \<open>
  \<^verbatim>\<open>batchAnalyzeEmails\<close>. \<^verbatim>\<open>params.options?.generateSummary\<close> is falsy when
  \<^verbatim>\<open>options\<close> is absent. No statement of the function throws outside the
  \<^verbatim>\<open>try\<close> block, so the call always resolves to an outcome.
\<close>

definition batchAnalyzeEmails ::
  "env \<Rightarrow> vendor \<Rightarrow> string list \<Rightarrow> analysisType list \<Rightarrow> BatchOptions option
     \<Rightarrow> (string \<Rightarrow> EmailData io) \<Rightarrow> world \<Rightarrow> BatchOutcome \<times> world" where
  "batchAnalyzeEmails env generateObject messageIds analysisTypes options getEmailData w =
     (case batch_loop env generateObject getEmailData analysisTypes messageIds [] w of
        (rs, w') \<Rightarrow>
          (if (case options of None \<Rightarrow> False | Some opts \<Rightarrow> generateSummary opts)
           then \<lparr> results = rs, summary = summary_text rs,
                  recommendedActions = concat (map recommend rs) \<rparr>
           else \<lparr> results = rs, summary = [], recommendedActions = [] \<rparr>,
           w'))"

subsection \<open>The request schema\<close>

text \<open>
  A request as it arrives, well typed but not yet validated, and what
  \<^verbatim>\<open>BatchAnalyzeEmailsSchema\<close> makes of it: \<^verbatim>\<open>messageIds\<close> has at most 50 entries, every
  analysis type is one of the three names, and \<^verbatim>\<open>options\<close> is optional; inside a given
  \<^verbatim>\<open>options\<close> object \<^verbatim>\<open>autoApplyLabels\<close> defaults to false and
  \<^verbatim>\<open>generateSummary\<close> to true.
\<close>

record RawOptions =
  raw_autoApplyLabels :: "bool option"
  raw_generateSummary :: "bool option"

record RawBatchRequest =
  raw_messageIds :: "string list"
  raw_analysisTypes :: "string list"
  raw_options :: "RawOptions option"

definition parse_analysisType :: "string \<Rightarrow> analysisType option" where
  "parse_analysisType s =
     (if s = ''categorize'' then Some AT_categorize
      else if s = ''context'' then Some AT_context
      else if s = ''cold_detection'' then Some AT_cold_detection
      else None)"

definition parse_options :: "RawOptions \<Rightarrow> BatchOptions" where
  "parse_options raw =
     \<lparr> autoApplyLabels = (case raw_autoApplyLabels raw of None \<Rightarrow> False | Some b \<Rightarrow> b),
       generateSummary = (case raw_generateSummary raw of None \<Rightarrow> True | Some b \<Rightarrow> b) \<rparr>"

definition BatchAnalyzeEmailsSchema_parse ::
  "RawBatchRequest \<Rightarrow> error + string list \<times> analysisType list \<times> BatchOptions option" where
  "BatchAnalyzeEmailsSchema_parse raw =
     (if length (raw_messageIds raw) > 50 then Inl (ZodError ''messageIds'')
      else case those (map parse_analysisType (raw_analysisTypes raw)) of
             None \<Rightarrow> Inl (ZodError ''analysisTypes'')
           | Some ts \<Rightarrow> Inr (raw_messageIds raw, ts, map_option parse_options (raw_options raw)))"

text \<open>
  Modelled from the spec: the handler of the tool \<^verbatim>\<open>batch_analyze_emails\<close>, which is not
  among the sources. The spec gives the tool the contract
  \<^verbatim>\<open>batch_analyze_emails(messageIds (<=50), analysisTypes, options?) -> BatchOutcome\<close> and
  has a request of 51 identifiers rejected before any vendor call: the handler
  validates the request against \<^verbatim>\<open>BatchAnalyzeEmailsSchema\<close> and hands the parsed
  request to \<^verbatim>\<open>batchAnalyzeEmails\<close>.
\<close>

definition batch_analyze_emails ::
  "env \<Rightarrow> vendor \<Rightarrow> (string \<Rightarrow> EmailData io) \<Rightarrow> RawBatchRequest \<Rightarrow> BatchOutcome io" where
  "batch_analyze_emails env generateObject getEmailData raw w =
     (case BatchAnalyzeEmailsSchema_parse raw of
        Inl e \<Rightarrow> (Inl e, w)
      | Inr (messageIds, analysisTypes, options) \<Rightarrow>
          (case batchAnalyzeEmails env generateObject messageIds analysisTypes options
                  getEmailData w of
             (outcome, w') \<Rightarrow> (Inr outcome, w')))"

section \<open>Notions used to state the properties\<close>

subsection \<open>Tier resolution\<close>

text \<open>
  The vendor each tier selects (the first two statements of \<^verbatim>\<open>getLLMConfig\<close>), the three
  recognised vendors, the environment variable that holds a recognised vendor's key, and
  whether that variable holds a non-empty key.
\<close>

definition default_vendor :: "env \<Rightarrow> string" where
  "default_vendor env = str_or (env ''LLM_PROVIDER'') ''anthropic''"

definition economy_vendor :: "env \<Rightarrow> string" where
  "economy_vendor env = str_or (env ''ECONOMY_LLM_PROVIDER'') (default_vendor env)"

definition supported :: "string \<Rightarrow> bool" where
  "supported p = (p = ''anthropic'' \<or> p = ''openai'' \<or> p = ''google'')"

definition key_variable :: "string \<Rightarrow> string" where
  "key_variable p =
     (if p = ''anthropic'' then ''ANTHROPIC_API_KEY''
      else if p = ''openai'' then ''OPENAI_API_KEY''
      else ''GOOGLE_AI_API_KEY'')"

definition key_present :: "env \<Rightarrow> string \<Rightarrow> bool" where
  "key_present env p = (case env (key_variable p) of None \<Rightarrow> False | Some k \<Rightarrow> k \<noteq> [])"

definition vendor_name :: "string \<Rightarrow> string" where
  "vendor_name p =
     (if p = ''anthropic'' then ''Anthropic''
      else if p = ''openai'' then ''OpenAI''
      else ''Google'')"

text \<open>
  Sample environments: an unrecognised default vendor with an economy vendor that has no
  key; an Anthropic key and nothing else; an unrecognised economy vendor beside the
  default vendor with its key; the vendor \<^verbatim>\<open>openai\<close> without its key.
\<close>

definition env_mistral :: env where
  "env_mistral =
     [''LLM_PROVIDER'' \<mapsto> ''mistral'', ''ECONOMY_LLM_PROVIDER'' \<mapsto> ''openai'',
      ''ANTHROPIC_API_KEY'' \<mapsto> ''sk-ant-1'']"

definition env_anthropic :: env where
  "env_anthropic = [''ANTHROPIC_API_KEY'' \<mapsto> ''sk-ant-1'']"

definition env_economy_unknown :: env where
  "env_economy_unknown =
     [''ECONOMY_LLM_PROVIDER'' \<mapsto> ''mistral'', ''ANTHROPIC_API_KEY'' \<mapsto> ''sk-ant-1'']"

definition env_no_key :: env where
  "env_no_key = [''LLM_PROVIDER'' \<mapsto> ''openai'', ''ANTHROPIC_API_KEY'' \<mapsto> ''sk-ant-1'']"

subsection \<open>Sample inputs\<close>

text \<open>
  Concrete results, a deterministic vendor, an email store and an initial world, used
  where a property is evaluated at an explicit input.
\<close>

definition cat_work :: analysis where
  "cat_work =
     Categorization \<lparr> cat_category = WORK, cat_confidence = 0.9,
                      cat_reasoning = ''from a colleague'', suggestedLabels = None \<rparr>"

definition cold_sales :: analysis where
  "cold_sales =
     ColdDetection \<lparr> isColdEmail = True, coldEmailType = SALES, cold_confidence = 0.95,
                     cold_reasoning = ''unsolicited pitch'', suggestedAction = ARCHIVE \<rparr>"

definition cold_legit :: analysis where
  "cold_legit =
     ColdDetection \<lparr> isColdEmail = False, coldEmailType = LEGITIMATE, cold_confidence = 0.8,
                     cold_reasoning = ''reply in a thread'', suggestedAction = ALLOW \<rparr>"

definition ctx_sample :: analysis where
  "ctx_sample =
     ContextExtraction \<lparr> ctx_summary = ''asks for a call'', keyPoints = [], actionItems = [],
                         people = [], dates = [], relevantContext = ''sales outreach'',
                         ctx_confidence = 0.7 \<rparr>"

text \<open>
  \<open>vendor_sample\<close> answers by schema; for cold detection its answer depends on the
  prompt: the message with the subject \<^verbatim>\<open>Quick chat?\<close> is cold, any other is legitimate.
  \<open>vendor_no_context\<close> is the same vendor with context extraction failing.
\<close>

definition vendor_sample :: vendor where
  "vendor_sample sdk_instance model_name schema prompt system =
     (case schema of
        CategorizationResultSchema \<Rightarrow> Inr \<lparr> object = cat_work, gen_usage = Some (120, 30) \<rparr>
      | ColdEmailResultSchema \<Rightarrow>
          Inr \<lparr> object =
                  (if prompt = cold_email_prompt [] ''sales@vendor.com'' ''Quick chat?''
                                 ''I noticed your company''
                   then cold_sales else cold_legit),
                gen_usage = Some (200, 40) \<rparr>
      | ContextExtractionResultSchema \<Rightarrow> Inr \<lparr> object = ctx_sample, gen_usage = None \<rparr>)"



definition store_sample :: "string \<Rightarrow> error + EmailData" where
  "store_sample mid =
     (if mid = ''m1''
      then Inr \<lparr> from_addr = ''sales@vendor.com'', subject = ''Quick chat?'',
                 snippet = ''I noticed'', body = Some ''I noticed your company'' \<rparr>
      else if mid = ''m2''
      then Inr \<lparr> from_addr = ''sales@vendor.com'', subject = ''Re: invoice'',
                 snippet = ''Attached'', body = Some ''Attached is the invoice'' \<rparr>
      else if mid = ''m3''
      then Inr \<lparr> from_addr = ''boss@work.com'', subject = ''Standup'',
                 snippet = ''At ten'', body = None \<rparr>
      else Inl (FetchFailed ''message not found''))"

text \<open>The views of the store that the single facades fetch.\<close>

definition store_snippet :: "string \<Rightarrow> error + email3" where
  "store_snippet mid =
     (case store_sample mid of
        Inl e \<Rightarrow> Inl e
      | Inr d \<Rightarrow> Inr (from_addr d, subject d, snippet d))"

definition store_body :: "string \<Rightarrow> error + email3" where
  "store_body mid =
     (case store_sample mid of
        Inl e \<Rightarrow> Inl e
      | Inr d \<Rightarrow> Inr (from_addr d, subject d, (case body d of None \<Rightarrow> [] | Some b \<Rightarrow> b)))"

definition world0 :: world where
  "world0 = \<lparr> llmCache = new_LLMCache, tokenTracker = \<lparr> usage = [] \<rparr>, now = 1000,
              trace = [] \<rparr>"

subsection \<open>Reading the cache repeatedly\<close>

text \<open>The cache after a sequence of \<^verbatim>\<open>get\<close> calls, each with its time and key.\<close>

fun cache_gets :: "(int \<times> string) list \<Rightarrow> LLMCache \<Rightarrow> LLMCache" where
  "cache_gets [] c = c"
| "cache_gets ((t, k) # qs) c = cache_gets qs (snd (cache_get c t k))"

subsection \<open>The facades after the cache lookup\<close>

text \<open>
  The parts of the facades named apart, so that each case of the cache lookup can be
  stated: what \<^verbatim>\<open>categorizeEmail\<close> and \<^verbatim>\<open>detectColdEmail\<close> do after a miss, what
  \<^verbatim>\<open>detectColdEmail\<close> and \<^verbatim>\<open>extractEmailContext\<close> do once the email data is there, and the
  events of the optional thread fetch.
\<close>

definition categorize_miss ::
  "env \<Rightarrow> vendor \<Rightarrow> string \<Rightarrow> string list option \<Rightarrow> (string \<Rightarrow> email3 io) \<Rightarrow> analysis io" where
  "categorize_miss env gen mid cats ge w1 =
     andThen (ge mid w1)
       (\<lambda>(sender, subj, snip) w2.
          case getCategorizationPrompt sender subj snip cats of
            (system, prompt) \<Rightarrow>
              andThen
                (generateStructuredOutput env gen prompt CategorizationResultSchema (Some system)
                   (Some Economy) (Some ''categorize_email'') w2)
                (\<lambda>result w3. (Inr result, llmCache_set (categorize_key mid) result w3)))"

definition cold_miss ::
  "env \<Rightarrow> vendor \<Rightarrow> UserProfile option \<Rightarrow> email3 \<Rightarrow> analysis io" where
  "cold_miss env gen prof d w2 =
     (case d of (sender, subj, content) \<Rightarrow>
        (case getColdEmailPrompt sender subj content prof of
           (system, prompt) \<Rightarrow>
             andThen
               (generateStructuredOutput env gen prompt ColdEmailResultSchema (Some system)
                  (Some Economy) (Some ''detect_cold_email'') w2)
               (\<lambda>result w3. (Inr result, llmCache_set (cold_key sender) result w3))))"

definition cold_after_fetch ::
  "env \<Rightarrow> vendor \<Rightarrow> UserProfile option \<Rightarrow> email3 \<Rightarrow> analysis io" where
  "cold_after_fetch env gen prof d w1 =
     (case llmCache_get (cold_key (fst d)) w1 of
        (Some cached, w2) \<Rightarrow> (Inr cached, w2)
      | (None, w2) \<Rightarrow> cold_miss env gen prof d w2)"

definition thread_events ::
  "string option \<Rightarrow> (string \<Rightarrow> int \<Rightarrow> error + thread_message list) option \<Rightarrow> event list" where
  "thread_events tid g =
     (case tid of
        None \<Rightarrow> []
      | Some t \<Rightarrow> (case g of None \<Rightarrow> [] | Some h \<Rightarrow> if t = [] then [] else [EvFetchThread t]))"

definition context_after_fetch ::
  "env \<Rightarrow> vendor \<Rightarrow> string option \<Rightarrow> int \<Rightarrow> (string \<Rightarrow> int \<Rightarrow> thread_message list io) option
     \<Rightarrow> email3 \<Rightarrow> analysis io" where
  "context_after_fetch env gen tid m gt d w1 =
     andThen (fetchThreadHistory tid m gt w1)
       (\<lambda>threadHistory w2.
          case getContextExtractionPrompt (fst d) (fst (snd d)) (snd (snd d)) threadHistory of
            (system, prompt) \<Rightarrow>
              generateStructuredOutput env gen prompt ContextExtractionResultSchema
                (Some system) (Some Default) (Some ''extract_context'') w2)"

text \<open>The sample world after \<^verbatim>\<open>m1\<close> has been categorized once.\<close>

definition world_categorized :: world where
  "world_categorized =
     snd (categorizeEmail env_anthropic vendor_sample ''m1'' None
            (external_fetch store_snippet) world0)"

subsection \<open>Counting vendor calls, clearing the cache\<close>

text \<open>
  The number of vendor calls in a trace, and the world with every cache entry removed
  (\<^verbatim>\<open>llmCache.clear()\<close>).
\<close>

fun is_vendor_call :: "event \<Rightarrow> bool" where
  "is_vendor_call (EvVendor s) = True"
| "is_vendor_call _ = False"

definition vendor_calls :: "event list \<Rightarrow> nat" where
  "vendor_calls evs = length (filter is_vendor_call evs)"

definition cleared :: "world \<Rightarrow> world" where
  "cleared w = w\<lparr>llmCache := cache_clear (llmCache w)\<rparr>"

text \<open>The sample world after a cold detection on \<^verbatim>\<open>m1\<close>.\<close>

definition world_cold :: world where
  "world_cold =
     snd (detectColdEmail env_anthropic vendor_sample ''m1'' None
            (external_fetch store_body) world0)"

subsection \<open>The batch item by item\<close>


definition after_item ::
  "env \<Rightarrow> vendor \<Rightarrow> (string \<Rightarrow> EmailData io) \<Rightarrow> analysisType list \<Rightarrow> string \<Rightarrow> world \<Rightarrow> world" where
  "after_item env gen ge ts mid w =
     (case process_item env gen ge ts mid w of
        (Inr r, w') \<Rightarrow> w'
      | (Inl e, w') \<Rightarrow> emit (EvConsoleError (''Error analyzing email '' @ mid @ '':'')) w')"

fun item_worlds ::
  "env \<Rightarrow> vendor \<Rightarrow> (string \<Rightarrow> EmailData io) \<Rightarrow> analysisType list \<Rightarrow> string list \<Rightarrow> world
     \<Rightarrow> world list" where
  "item_worlds env gen ge ts [] w = []"
| "item_worlds env gen ge ts (mid # rest) w =
     w # item_worlds env gen ge ts rest (after_item env gen ge ts mid w)"

definition item_raises ::
  "env \<Rightarrow> vendor \<Rightarrow> (string \<Rightarrow> EmailData io) \<Rightarrow> analysisType list \<Rightarrow> string \<times> world \<Rightarrow> bool" where
  "item_raises env gen ge ts p = isl (fst (process_item env gen ge ts (fst p) (snd p)))"

text \<open>
  Sample requests: 51 identifiers, the options with the summary enabled, and the sample
  world after the batch item \<^verbatim>\<open>m1\<close> whose context extraction fails.
\<close>

definition request51 :: RawBatchRequest where
  "request51 =
     \<lparr> raw_messageIds = replicate 51 ''m1'', raw_analysisTypes = [''categorize''],
       raw_options = None \<rparr>"

definition summary_on :: BatchOptions where
  "summary_on = \<lparr> autoApplyLabels = False, generateSummary = True \<rparr>"


subsection \<open>Live entries and cache events\<close>

text \<open>
  An entry is live in a world when \<^verbatim>\<open>get\<close> would return it there: it is present and
  its age is at most the TTL. The cache events of a trace are its reads and writes of
  the cache.
\<close>

definition entry_live :: "world \<Rightarrow> string \<Rightarrow> bool" where
  "entry_live w key =
     (case cache (llmCache w) key of
        None \<Rightarrow> False
      | Some e \<Rightarrow> now w - timestamp e \<le> ttl (llmCache w))"

fun is_cache_event :: "event \<Rightarrow> bool" where
  "is_cache_event (EvCacheGet k) = True"
| "is_cache_event (EvCacheSet k) = True"
| "is_cache_event _ = False"

definition cache_events :: "event list \<Rightarrow> event list" where
  "cache_events evs = filter is_cache_event evs"

section \<open>Tier resolution\<close>

lemma getApiKey_cases:
  "getApiKeyForProvider env p =
     (if \<not> supported p then Inl (UnknownProvider p)
      else if key_present env p then Inr (the (env (key_variable p)))
      else Inl (ApiKeyRequired (key_variable p) (vendor_name p)))"
  by (auto simp: getApiKeyForProvider_def requireKey_def supported_def key_present_def
        key_variable_def vendor_name_def split: option.splits)

lemma getLLMConfig_cases:
  "getLLMConfig env =
     (let dp = default_vendor env; ep = economy_vendor env
      in if \<not> supported dp then Inl (UnknownProvider dp)
         else if \<not> key_present env dp then Inl (ApiKeyRequired (key_variable dp) (vendor_name dp))
         else if \<not> supported ep then Inl (UnknownProvider ep)
         else if \<not> key_present env ep then Inl (ApiKeyRequired (key_variable ep) (vendor_name ep))
         else Inr \<lparr> default_tier =
                      \<lparr> provider = dp,
                        model = str_or (env ''LLM_MODEL'') (getDefaultModelForProvider dp),
                        apiKey = the (env (key_variable dp)) \<rparr>,
                    economy_tier =
                      \<lparr> provider = ep,
                        model = str_or (env ''ECONOMY_LLM_MODEL'') (getEconomyModelForProvider ep),
                        apiKey = the (env (key_variable ep)) \<rparr> \<rparr>)"
  by (simp add: getLLMConfig_def Let_def default_vendor_def economy_vendor_def getApiKey_cases)

lemma key_present_Some:
  "key_present env p \<Longrightarrow> \<exists>k. env (key_variable p) = Some k \<and> k \<noteq> []"
  by (auto simp: key_present_def split: option.splits)

text \<open>
  Claim C7, as the code has it. Resolution fails exactly when, for the default or the
  economy tier, the selected vendor is not one of the three recognised names or has no
  non-empty key in its environment variable. When both selected vendors are recognised,
  resolution fails with the key-required error exactly when one of them lacks its key,
  and with no other error. On success each profile carries its tier's vendor and that
  vendor's key, which is not empty. A failure of resolution is the outcome of
  \<^verbatim>\<open>generateStructuredOutput\<close> itself and leaves the world as it was: no vendor call, no
  usage record, no event. The error, with the default tier checked first: an unrecognised
  default vendor gives the unknown-provider error for that name; a recognised default
  vendor without key gives the key-required error for its variable; with the default
  tier in order, an unrecognised economy vendor gives the unknown-provider error, and a
  recognised economy vendor without key the key-required error.
\<close>

theorem tier_resolution_failure:
  "((\<exists>e. getLLMConfig env = Inl e) \<longleftrightarrow>
      \<not> (supported (default_vendor env) \<and> key_present env (default_vendor env)) \<or>
      \<not> (supported (economy_vendor env) \<and> key_present env (economy_vendor env))) \<and>
   (supported (default_vendor env) \<and> supported (economy_vendor env) \<longrightarrow>
      ((\<exists>var name. getLLMConfig env = Inl (ApiKeyRequired var name)) \<longleftrightarrow>
         \<not> key_present env (default_vendor env) \<or> \<not> key_present env (economy_vendor env)) \<and>
      (\<forall>e. getLLMConfig env = Inl e \<longrightarrow> (\<exists>var name. e = ApiKeyRequired var name))) \<and>
   (\<forall>cfg. getLLMConfig env = Inr cfg \<longrightarrow>
      provider (default_tier cfg) = default_vendor env \<and>
      provider (economy_tier cfg) = economy_vendor env \<and>
      env (key_variable (default_vendor env)) = Some (apiKey (default_tier cfg)) \<and>
      env (key_variable (economy_vendor env)) = Some (apiKey (economy_tier cfg)) \<and>
      apiKey (default_tier cfg) \<noteq> [] \<and> apiKey (economy_tier cfg) \<noteq> []) \<and>
   (\<forall>e. getLLMConfig env = Inl e \<longrightarrow>
      generateStructuredOutput env generateObject prompt schema system tier operation w
        = (Inl e, w)) \<and>
   (\<not> supported (default_vendor env) \<longrightarrow>
      getLLMConfig env = Inl (UnknownProvider (default_vendor env))) \<and>
   (supported (default_vendor env) \<and> \<not> key_present env (default_vendor env) \<longrightarrow>
      getLLMConfig env =
        Inl (ApiKeyRequired (key_variable (default_vendor env))
               (vendor_name (default_vendor env)))) \<and>
   (supported (default_vendor env) \<and> key_present env (default_vendor env) \<and>
    \<not> supported (economy_vendor env) \<longrightarrow>
      getLLMConfig env = Inl (UnknownProvider (economy_vendor env))) \<and>
   (supported (default_vendor env) \<and> key_present env (default_vendor env) \<and>
    supported (economy_vendor env) \<and> \<not> key_present env (economy_vendor env) \<longrightarrow>
      getLLMConfig env =
        Inl (ApiKeyRequired (key_variable (economy_vendor env))
               (vendor_name (economy_vendor env))))"
proof -
  have fails: "(\<exists>e. getLLMConfig env = Inl e) \<longleftrightarrow>
      \<not> (supported (default_vendor env) \<and> key_present env (default_vendor env)) \<or>
      \<not> (supported (economy_vendor env) \<and> key_present env (economy_vendor env))"
    by (simp add: getLLMConfig_cases Let_def)
  have known: "supported (default_vendor env) \<and> supported (economy_vendor env) \<longrightarrow>
      ((\<exists>var name. getLLMConfig env = Inl (ApiKeyRequired var name)) \<longleftrightarrow>
         \<not> key_present env (default_vendor env) \<or> \<not> key_present env (economy_vendor env)) \<and>
      (\<forall>e. getLLMConfig env = Inl e \<longrightarrow> (\<exists>var name. e = ApiKeyRequired var name))"
    by (auto simp: getLLMConfig_cases Let_def)
  have ok: "\<forall>cfg. getLLMConfig env = Inr cfg \<longrightarrow>
      provider (default_tier cfg) = default_vendor env \<and>
      provider (economy_tier cfg) = economy_vendor env \<and>
      env (key_variable (default_vendor env)) = Some (apiKey (default_tier cfg)) \<and>
      env (key_variable (economy_vendor env)) = Some (apiKey (economy_tier cfg)) \<and>
      apiKey (default_tier cfg) \<noteq> [] \<and> apiKey (economy_tier cfg) \<noteq> []"
    by (auto simp: getLLMConfig_cases Let_def split: if_splits dest: key_present_Some)
  have early: "\<forall>e. getLLMConfig env = Inl e \<longrightarrow>
      generateStructuredOutput env generateObject prompt schema system tier operation w
        = (Inl e, w)"
    by (simp add: generateStructuredOutput_def)
  have order:
    "(\<not> supported (default_vendor env) \<longrightarrow>
        getLLMConfig env = Inl (UnknownProvider (default_vendor env))) \<and>
     (supported (default_vendor env) \<and> \<not> key_present env (default_vendor env) \<longrightarrow>
        getLLMConfig env =
          Inl (ApiKeyRequired (key_variable (default_vendor env))
                 (vendor_name (default_vendor env)))) \<and>
     (supported (default_vendor env) \<and> key_present env (default_vendor env) \<and>
      \<not> supported (economy_vendor env) \<longrightarrow>
        getLLMConfig env = Inl (UnknownProvider (economy_vendor env))) \<and>
     (supported (default_vendor env) \<and> key_present env (default_vendor env) \<and>
      supported (economy_vendor env) \<and> \<not> key_present env (economy_vendor env) \<longrightarrow>
        getLLMConfig env =
          Inl (ApiKeyRequired (key_variable (economy_vendor env))
                 (vendor_name (economy_vendor env))))"
    by (simp add: getLLMConfig_cases Let_def)
  from fails known ok early order show ?thesis by blast
qed

lemma getLLMConfig_env_mistral: "getLLMConfig env_mistral = Inl (UnknownProvider ''mistral'')"
  by code_simp

text \<open>
  Claim C7 as stated fails when the default tier names an unrecognised vendor: the
  economy vendor \<^verbatim>\<open>openai\<close> has no key, yet resolution ends with the unknown-provider
  error of the default tier, not with the key-required error.
\<close>

theorem tier_resolution_counterexample:
  "getLLMConfig env_mistral = Inl (UnknownProvider ''mistral'') \<and>
   economy_vendor env_mistral = ''openai'' \<and> env_mistral ''OPENAI_API_KEY'' = None"
  by code_simp

text \<open>
  Witness for C7: with \<^verbatim>\<open>LLM_PROVIDER=openai\<close> and no OpenAI key, resolution and
  \<^verbatim>\<open>generateStructuredOutput\<close> both end with the key-required error; with only an
  Anthropic key and no provider setting, both tiers resolve to that key; an unrecognised
  default vendor, and an unrecognised economy vendor beside a default tier in order,
  end with the unknown-provider error.
\<close>

theorem tier_resolution_failure_witness:
  "getLLMConfig env_no_key = Inl (ApiKeyRequired ''OPENAI_API_KEY'' ''OpenAI'') \<and>
   fst (generateStructuredOutput env_no_key vendor_sample ''p'' ColdEmailResultSchema None
          (Some Economy) None world0)
     = Inl (ApiKeyRequired ''OPENAI_API_KEY'' ''OpenAI'') \<and>
   trace (snd (generateStructuredOutput env_no_key vendor_sample ''p'' ColdEmailResultSchema
          None (Some Economy) None world0)) = [] \<and>
   (\<exists>cfg. getLLMConfig env_anthropic = Inr cfg \<and>
      apiKey (default_tier cfg) = ''sk-ant-1'' \<and> apiKey (economy_tier cfg) = ''sk-ant-1'') \<and>
   getLLMConfig env_mistral = Inl (UnknownProvider ''mistral'') \<and>
   getLLMConfig env_economy_unknown = Inl (UnknownProvider ''mistral'')"
proof -
  have "\<not> supported (default_vendor env_mistral)"
    and "default_vendor env_mistral = ''mistral''"
    by code_simp+
  with tier_resolution_failure
         [of env_mistral vendor_sample "''p''" ColdEmailResultSchema None "Some Economy" None
            world0]
  have unknown: "getLLMConfig env_mistral = Inl (UnknownProvider ''mistral'')"
    by simp
  have "supported (default_vendor env_economy_unknown)"
    and "key_present env_economy_unknown (default_vendor env_economy_unknown)"
    and "\<not> supported (economy_vendor env_economy_unknown)"
    and "economy_vendor env_economy_unknown = ''mistral''"
    by code_simp+
  with tier_resolution_failure
         [of env_economy_unknown vendor_sample "''p''" ColdEmailResultSchema None
            "Some Economy" None world0]
  have unknown2: "getLLMConfig env_economy_unknown = Inl (UnknownProvider ''mistral'')"
    by simp
  have fail: "getLLMConfig env_no_key = Inl (ApiKeyRequired ''OPENAI_API_KEY'' ''OpenAI'')"
    by code_simp
  from tier_resolution_failure
         [of env_no_key vendor_sample "''p''" ColdEmailResultSchema None "Some Economy" None
            world0] fail
  have early: "generateStructuredOutput env_no_key vendor_sample ''p'' ColdEmailResultSchema
                 None (Some Economy) None world0
               = (Inl (ApiKeyRequired ''OPENAI_API_KEY'' ''OpenAI''), world0)"
    by blast
  have anth_ok: "\<not> isl (getLLMConfig env_anthropic)"
    by code_simp
  obtain cfg where cfg: "getLLMConfig env_anthropic = Inr cfg"
    using anth_ok by (cases "getLLMConfig env_anthropic") auto
  from tier_resolution_failure
         [of env_anthropic vendor_sample "''p''" ColdEmailResultSchema None "Some Economy" None
            world0] cfg
  have "env_anthropic (key_variable (default_vendor env_anthropic))
          = Some (apiKey (default_tier cfg))"
       "env_anthropic (key_variable (economy_vendor env_anthropic))
          = Some (apiKey (economy_tier cfg))"
    by blast+
  moreover have
    "env_anthropic (key_variable (default_vendor env_anthropic)) = Some ''sk-ant-1''"
    "env_anthropic (key_variable (economy_vendor env_anthropic)) = Some ''sk-ant-1''"
    by code_simp+
  ultimately have "apiKey (default_tier cfg) = ''sk-ant-1''"
    "apiKey (economy_tier cfg) = ''sk-ant-1''"
    by simp_all
  with fail early cfg unknown unknown2 show ?thesis by (simp add: world0_def)
qed

section \<open>Built-in model names\<close>

text \<open>
  Claim C8 at the vendor \<^verbatim>\<open>google\<close>: both built-in names are \<^verbatim>\<open>gemini-2.0-flash-exp\<close>, so
  the default tier and the economy tier get the same model; for \<^verbatim>\<open>anthropic\<close> and
  \<^verbatim>\<open>openai\<close> the two names differ.
\<close>

theorem google_tiers_share_model:
  "getDefaultModelForProvider ''google'' = ''gemini-2.0-flash-exp'' \<and>
   getEconomyModelForProvider ''google'' = ''gemini-2.0-flash-exp'' \<and>
   getDefaultModelForProvider ''anthropic'' \<noteq> getEconomyModelForProvider ''anthropic'' \<and>
   getDefaultModelForProvider ''openai'' \<noteq> getEconomyModelForProvider ''openai''"
  by (simp add: getDefaultModelForProvider_def getEconomyModelForProvider_def)

section \<open>The result cache\<close>

lemma cache_get_absent: "cache c k = None \<Longrightarrow> cache_get c t k = (None, c)"
  by (simp add: cache_get_def)

lemma cache_get_keeps_absent:
  "cache c k = None \<Longrightarrow> cache (snd (cache_get c t k')) k = None"
  by (simp add: cache_get_def split: option.splits)

lemma cache_gets_keeps_absent:
  "cache c k = None \<Longrightarrow> cache (cache_gets qs c) k = None"
proof (induction qs arbitrary: c)
  case Nil
  then show ?case by simp
next
  case (Cons q qs)
  obtain t k' where q: "q = (t, k')" by (cases q)
  from Cons.prems have "cache (snd (cache_get c t k')) k = None"
    by (rule cache_get_keeps_absent)
  then show ?case using Cons.IH q by simp
qed

lemma cache_get_live:
  "cache c k = Some e \<Longrightarrow> t - timestamp e \<le> ttl c \<Longrightarrow> cache_get c t k = (Some (data e), c)"
  by (simp add: cache_get_def)

lemma cache_get_expired:
  "cache c k = Some e \<Longrightarrow> t - timestamp e > ttl c \<Longrightarrow>
   cache_get c t k = (None, c\<lparr>cache := (cache c)(k := None)\<rparr>)"
  by (simp add: cache_get_def)

text \<open>
  Claim C2, as the code has it. \<^verbatim>\<open>set(k, v)\<close> at time \<open>t0\<close> followed by \<^verbatim>\<open>get(k)\<close> at time
  \<open>t\<close> returns \<open>v\<close>, and leaves the store as it is, while the age \<open>t - t0\<close> is at
  most the TTL. Once the age exceeds the TTL, \<^verbatim>\<open>get\<close> returns absent and removes the
  entry, and no later \<^verbatim>\<open>get\<close> returns it, whatever reads come in between. In general an
  entry is visible to \<^verbatim>\<open>get\<close> exactly while its age is at most the TTL: the age equal to
  the TTL is still served.
\<close>

theorem cache_set_then_get:
  "(t - t0 \<le> ttl c \<longrightarrow>
      cache_get (cache_set c t0 k v) t k = (Some v, cache_set c t0 k v)) \<and>
   (t - t0 > ttl c \<longrightarrow>
      fst (cache_get (cache_set c t0 k v) t k) = None \<and>
      cache (snd (cache_get (cache_set c t0 k v) t k)) k = None \<and>
      (\<forall>qs t'. fst (cache_get (cache_gets qs (snd (cache_get (cache_set c t0 k v) t k))) t' k)
                  = None)) \<and>
   (\<forall>e. cache c k = Some e \<longrightarrow>
      (fst (cache_get c t k) \<noteq> None) = (t - timestamp e \<le> ttl c))"
proof -
  let ?c1 = "cache_set c t0 k v"
  have entry: "cache ?c1 k = Some \<lparr> data = v, timestamp = t0 \<rparr>" and ttl1: "ttl ?c1 = ttl c"
    by (simp_all add: cache_set_def)
  have live: "t - t0 \<le> ttl c \<longrightarrow> cache_get ?c1 t k = (Some v, ?c1)"
    using cache_get_live [OF entry, of t] by (simp add: ttl1)
  have dead: "t - t0 > ttl c \<longrightarrow>
      fst (cache_get ?c1 t k) = None \<and> cache (snd (cache_get ?c1 t k)) k = None \<and>
      (\<forall>qs t'. fst (cache_get (cache_gets qs (snd (cache_get ?c1 t k))) t' k) = None)"
  proof
    assume old: "t - t0 > ttl c"
    have got: "cache_get ?c1 t k = (None, ?c1\<lparr>cache := (cache ?c1)(k := None)\<rparr>)"
      using cache_get_expired [OF entry, of t] old by (simp add: ttl1)
    then have gone: "cache (snd (cache_get ?c1 t k)) k = None" by simp
    have "fst (cache_get (cache_gets qs (snd (cache_get ?c1 t k))) t' k) = None" for qs t'
      using cache_get_absent [OF cache_gets_keeps_absent [OF gone]] by simp
    with got gone show "fst (cache_get ?c1 t k) = None \<and>
      cache (snd (cache_get ?c1 t k)) k = None \<and>
      (\<forall>qs t'. fst (cache_get (cache_gets qs (snd (cache_get ?c1 t k))) t' k) = None)"
      by simp
  qed
  have visible: "\<forall>e. cache c k = Some e \<longrightarrow>
      (fst (cache_get c t k) \<noteq> None) = (t - timestamp e \<le> ttl c)"
    by (simp add: cache_get_def)
  from live dead visible show ?thesis by blast
qed

text \<open>
  Claim C2 as stated fails at the boundary: an entry written at time 0 has reached the
  TTL of one hour at time 3600000, and \<^verbatim>\<open>get\<close> still returns it.
\<close>

theorem cache_boundary_counterexample:
  "ttl new_LLMCache \<le> 3600000 - 0 \<and>
   fst (cache_get (cache_set new_LLMCache 0 ''k'' cat_work) 3600000 ''k'') = Some cat_work"
  by (simp add: cache_get_def cache_set_def new_LLMCache_def)

text \<open>
  Witness for C2: an entry written at time 0 is returned at time 5; at time 3600001 it is
  absent, and it stays absent after two further reads.
\<close>

theorem cache_set_then_get_witness:
  "fst (cache_get (cache_set new_LLMCache 0 ''k'' cat_work) 5 ''k'') = Some cat_work \<and>
   fst (cache_get (cache_set new_LLMCache 0 ''k'' cat_work) 3600001 ''k'') = None \<and>
   fst (cache_get
          (cache_gets [(7, ''k''), (8, ''j'')]
             (snd (cache_get (cache_set new_LLMCache 0 ''k'' cat_work) 3600001 ''k'')))
          9 ''k'') = None"
proof -
  have young: "5 - 0 \<le> ttl new_LLMCache" and old: "3600001 - 0 > ttl new_LLMCache"
    by (simp_all add: new_LLMCache_def)
  from cache_set_then_get [of 5 0 new_LLMCache "''k''" cat_work] young
  have a: "fst (cache_get (cache_set new_LLMCache 0 ''k'' cat_work) 5 ''k'') = Some cat_work"
    by simp
  from cache_set_then_get [of 3600001 0 new_LLMCache "''k''" cat_work] old
  show ?thesis using a by blast
qed

section \<open>The world operations\<close>

lemma emit_simps [simp]:
  "trace (emit ev w) = trace w @ [ev]"
  "llmCache (emit ev w) = llmCache w"
  "tokenTracker (emit ev w) = tokenTracker w"
  "now (emit ev w) = now w"
  by (simp_all add: emit_def)

lemma llmCache_get_absent:
  "cache (llmCache w) k = None \<Longrightarrow> llmCache_get k w = (None, emit (EvCacheGet k) w)"
  by (simp add: llmCache_get_def cache_get_def)

lemma llmCache_get_live:
  "cache (llmCache w) k = Some e \<Longrightarrow> now w - timestamp e \<le> ttl (llmCache w) \<Longrightarrow>
   llmCache_get k w = (Some (data e), emit (EvCacheGet k) w)"
  by (simp add: llmCache_get_def cache_get_def)

lemma llmCache_get_expired:
  "cache (llmCache w) k = Some e \<Longrightarrow> now w - timestamp e > ttl (llmCache w) \<Longrightarrow>
   llmCache_get k w =
     (None, emit (EvCacheGet k)
              (w\<lparr>llmCache := (llmCache w)\<lparr>cache := (cache (llmCache w))(k := None)\<rparr>\<rparr>))"
  by (simp add: llmCache_get_def cache_get_def)

lemma llmCache_set_simps [simp]:
  "trace (llmCache_set k d w) = trace w @ [EvCacheSet k]"
  "cache (llmCache (llmCache_set k d w)) = (cache (llmCache w))(k \<mapsto> \<lparr> data = d, timestamp = now w \<rparr>)"
  "ttl (llmCache (llmCache_set k d w)) = ttl (llmCache w)"
  "tokenTracker (llmCache_set k d w) = tokenTracker w"
  "now (llmCache_set k d w) = now w"
  by (simp_all add: llmCache_set_def cache_set_def)

lemma gso_fst:
  "fst (generateStructuredOutput env gen p s sys tier op w) =
   fst (generateStructuredOutput env gen p s sys tier op w')"
  by (simp add: generateStructuredOutput_def Let_def split: sum.splits option.splits prod.splits)

lemma gso_frame [simp]:
  "llmCache (snd (generateStructuredOutput env gen p s sys tier op w)) = llmCache w"
  "now (snd (generateStructuredOutput env gen p s sys tier op w)) = now w"
  by (simp_all add: generateStructuredOutput_def Let_def split: sum.splits option.splits prod.splits)

lemma gso_ok_trace:
  "generateStructuredOutput env gen p s sys tier op w = (Inr r, w') \<Longrightarrow>
   trace w' = trace w @ [EvVendor s]"
  by (auto simp: generateStructuredOutput_def Let_def split: sum.splits option.splits prod.splits)

section \<open>The facades case by case\<close>

lemma categorizeEmail_live:
  "cache (llmCache w) (categorize_key mid) = Some e \<Longrightarrow>
   now w - timestamp e \<le> ttl (llmCache w) \<Longrightarrow>
   categorizeEmail env gen mid cats ge w = (Inr (data e), emit (EvCacheGet (categorize_key mid)) w)"
  by (simp add: categorizeEmail_def Let_def llmCache_get_live)

lemma categorizeEmail_absent:
  "cache (llmCache w) (categorize_key mid) = None \<Longrightarrow>
   categorizeEmail env gen mid cats ge w =
     categorize_miss env gen mid cats ge (emit (EvCacheGet (categorize_key mid)) w)"
  by (simp add: categorizeEmail_def Let_def llmCache_get_absent categorize_miss_def)

lemma categorizeEmail_expired:
  "cache (llmCache w) (categorize_key mid) = Some e \<Longrightarrow>
   now w - timestamp e > ttl (llmCache w) \<Longrightarrow>
   categorizeEmail env gen mid cats ge w =
     categorize_miss env gen mid cats ge
       (emit (EvCacheGet (categorize_key mid))
          (w\<lparr>llmCache := (llmCache w)\<lparr>cache := (cache (llmCache w))((categorize_key mid) := None)\<rparr>\<rparr>))"
  by (simp add: categorizeEmail_def Let_def llmCache_get_expired categorize_miss_def)

lemma categorize_miss_ok_trace:
  "categorize_miss env gen mid cats (external_fetch f) w1 = (Inr r, w') \<Longrightarrow>
   trace w' = trace w1 @ [EvFetch mid, EvVendor CategorizationResultSchema,
                           EvCacheSet (categorize_key mid)]"
  by (auto simp: categorize_miss_def andThen_def external_fetch_def
      split: sum.splits prod.splits dest!: gso_ok_trace)

lemma categorizeEmail_ok_trace:
  assumes "categorizeEmail env gen mid cats (external_fetch f) w = (Inr r, w')"
  shows "trace w' = trace w @ [EvCacheGet (categorize_key mid)] \<or>
         trace w' = trace w @ [EvCacheGet (categorize_key mid), EvFetch mid,
                                EvVendor CategorizationResultSchema,
                                EvCacheSet (categorize_key mid)]"
proof (cases "cache (llmCache w) (categorize_key mid)")
  case None
  with assms categorizeEmail_absent [OF None, of env gen cats "external_fetch f"]
  show ?thesis by (auto dest!: categorize_miss_ok_trace)
next
  case (Some e)
  show ?thesis
  proof (cases "now w - timestamp e \<le> ttl (llmCache w)")
    case True
    with assms categorizeEmail_live [OF Some True, of env gen cats "external_fetch f"]
    show ?thesis by auto
  next
    case False
    then have "now w - timestamp e > ttl (llmCache w)" by simp
    from assms categorizeEmail_expired [OF Some this, of env gen cats "external_fetch f"]
    show ?thesis by (auto dest!: categorize_miss_ok_trace)
  qed
qed

lemma detectColdEmail_unfold:
  "detectColdEmail env gen mid prof ge w =
     andThen (ge mid w) (cold_after_fetch env gen prof)"
  unfolding detectColdEmail_def cold_after_fetch_def cold_miss_def Let_def
  by (rule arg_cong [where f = "andThen (ge mid w)"])
     (auto simp: fun_eq_iff split: prod.splits option.splits)

lemma cold_after_fetch_live:
  "cache (llmCache w) (cold_key (fst d)) = Some e \<Longrightarrow>
   now w - timestamp e \<le> ttl (llmCache w) \<Longrightarrow>
   cold_after_fetch env gen prof d w = (Inr (data e), emit (EvCacheGet (cold_key (fst d))) w)"
  by (simp add: cold_after_fetch_def llmCache_get_live)

lemma cold_after_fetch_absent:
  "cache (llmCache w) (cold_key (fst d)) = None \<Longrightarrow>
   cold_after_fetch env gen prof d w =
     cold_miss env gen prof d (emit (EvCacheGet (cold_key (fst d))) w)"
  by (simp add: cold_after_fetch_def llmCache_get_absent)

lemma cold_after_fetch_expired:
  "cache (llmCache w) (cold_key (fst d)) = Some e \<Longrightarrow>
   now w - timestamp e > ttl (llmCache w) \<Longrightarrow>
   cold_after_fetch env gen prof d w =
     cold_miss env gen prof d
       (emit (EvCacheGet (cold_key (fst d)))
          (w\<lparr>llmCache := (llmCache w)\<lparr>cache := (cache (llmCache w))(cold_key (fst d) := None)\<rparr>\<rparr>))"
  by (simp add: cold_after_fetch_def llmCache_get_expired)

lemma cold_miss_ok_trace:
  "cold_miss env gen prof d w1 = (Inr r, w') \<Longrightarrow>
   trace w' = trace w1 @ [EvVendor ColdEmailResultSchema, EvCacheSet (cold_key (fst d))]"
  by (auto simp: cold_miss_def andThen_def split: sum.splits prod.splits dest!: gso_ok_trace)



lemma fetchThreadHistory_world:
  "snd (fetchThreadHistory tid m (map_option external_fetch_thread g) w) =
     w\<lparr>trace := trace w @ thread_events tid g\<rparr>"
proof (cases tid)
  case None
  then show ?thesis by (simp add: fetchThreadHistory_def thread_events_def)
next
  case (Some t)
  show ?thesis
  proof (cases g)
    case None
    with Some show ?thesis by (simp add: fetchThreadHistory_def thread_events_def)
  next
    case (Some h)
    with \<open>tid = Some t\<close> show ?thesis
      by (cases "h t (if m = 0 then 10 else m)")
         (simp_all add: fetchThreadHistory_def thread_events_def andThen_def
            external_fetch_thread_def emit_def)
  qed
qed

lemma fetchThreadHistory_value:
  "fst (fetchThreadHistory tid m (map_option external_fetch_thread g) w) =
   fst (fetchThreadHistory tid m (map_option external_fetch_thread g) w')"
proof (cases tid)
  case None
  then show ?thesis by (simp add: fetchThreadHistory_def)
next
  case (Some t)
  show ?thesis
  proof (cases g)
    case None
    with Some show ?thesis by (simp add: fetchThreadHistory_def)
  next
    case (Some h)
    with \<open>tid = Some t\<close> show ?thesis
      by (cases "h t (if m = 0 then 10 else m)")
         (simp_all add: fetchThreadHistory_def andThen_def external_fetch_thread_def)
  qed
qed

lemma extractEmailContext_unfold:
  "extractEmailContext env gen mid tid m ge gt w =
     andThen (ge mid w) (context_after_fetch env gen tid m gt)"
  unfolding extractEmailContext_def context_after_fetch_def
  by (rule arg_cong [where f = "andThen (ge mid w)"]) (simp add: fun_eq_iff split: prod.splits)

lemma context_after_fetch_ok_trace:
  assumes "context_after_fetch env gen tid m (map_option external_fetch_thread g) d w = (Inr r, w')"
  shows "trace w' = trace w @ thread_events tid g @ [EvVendor ContextExtractionResultSchema]"
proof -
  obtain h w2 where th: "fetchThreadHistory tid m (map_option external_fetch_thread g) w = (h, w2)"
    by (cases "fetchThreadHistory tid m (map_option external_fetch_thread g) w")
  from fetchThreadHistory_world [of tid m g w] th
  have w2: "trace w2 = trace w @ thread_events tid g" by simp
  show ?thesis
  proof (cases h)
    case (Inl e)
    with assms th show ?thesis by (simp add: context_after_fetch_def andThen_def)
  next
    case (Inr hist)
    obtain sys pr where p: "getContextExtractionPrompt (fst d) (fst (snd d)) (snd (snd d)) hist
                            = (sys, pr)"
      by (cases "getContextExtractionPrompt (fst d) (fst (snd d)) (snd (snd d)) hist")
    from assms th Inr p
    have "generateStructuredOutput env gen pr ContextExtractionResultSchema (Some sys)
            (Some Default) (Some ''extract_context'') w2 = (Inr r, w')"
      by (simp add: context_after_fetch_def andThen_def)
    from gso_ok_trace [OF this] w2 show ?thesis by simp
  qed
qed

lemma extractEmailContext_ok_trace:
  assumes "extractEmailContext env gen mid tid m (external_fetch f)
             (map_option external_fetch_thread g) w = (Inr r, w')"
  shows "trace w' = trace w @ [EvFetch mid] @ thread_events tid g @
                    [EvVendor ContextExtractionResultSchema]"
proof (cases "f mid")
  case (Inl e)
  with assms show ?thesis
    by (simp add: extractEmailContext_unfold andThen_def external_fetch_def)
next
  case (Inr d)
  with assms
  have "context_after_fetch env gen tid m (map_option external_fetch_thread g) d
          (emit (EvFetch mid) w) = (Inr r, w')"
    by (simp add: extractEmailContext_unfold andThen_def external_fetch_def)
  from context_after_fetch_ok_trace [OF this] show ?thesis by simp
qed

section \<open>Results of the facades with and without the cache\<close>

lemma gso_ok_world:
  "generateStructuredOutput env gen p s sys tier op w = (Inr r, w') \<Longrightarrow>
   llmCache w' = llmCache w \<and> now w' = now w"
  using gso_frame [of env gen p s sys tier op w] by simp

lemma cold_miss_ok_entry:
  assumes "cold_miss env gen prof d w = (Inr r, w')"
  shows "cache (llmCache w') (cold_key (fst d)) = Some \<lparr> data = r, timestamp = now w \<rparr> \<and>
         ttl (llmCache w') = ttl (llmCache w)"
proof -
  obtain a b c where d: "d = (a, b, c)" by (cases d)
  obtain sys pr where p: "getColdEmailPrompt a b c prof = (sys, pr)"
    by (cases "getColdEmailPrompt a b c prof")
  obtain x w3 where g: "generateStructuredOutput env gen pr ColdEmailResultSchema (Some sys)
                          (Some Economy) (Some ''detect_cold_email'') w = (x, w3)"
    by (cases "generateStructuredOutput env gen pr ColdEmailResultSchema (Some sys)
                 (Some Economy) (Some ''detect_cold_email'') w")
  from assms d p g have x: "x = Inr r" and w': "w' = llmCache_set (cold_key a) r w3"
    by (auto simp: cold_miss_def andThen_def split: sum.splits)
  from g x have "llmCache w3 = llmCache w \<and> now w3 = now w"
    by (auto dest: gso_ok_world)
  with w' d show ?thesis by simp
qed


lemma vendor_calls_append [simp]:
  "vendor_calls (xs @ ys) = vendor_calls xs + vendor_calls ys"
  by (simp add: vendor_calls_def)

lemma cleared_simps [simp]:
  "cache (llmCache (cleared w)) k = None"
  "ttl (llmCache (cleared w)) = ttl (llmCache w)"
  "now (cleared w) = now w"
  "trace (cleared w) = trace w"
  by (simp_all add: cleared_def cache_clear_def)

lemma andThen_fst_ret: "fst (andThen m (\<lambda>x w. (Inr x, g x w))) = fst m"
  by (cases m) (auto simp: andThen_def split: sum.splits)

lemma andThen_Inl:
  "andThen m k = (Inl e, w') \<Longrightarrow>
   m = (Inl e, w') \<or> (\<exists>x w1. m = (Inr x, w1) \<and> k x w1 = (Inl e, w'))"
  by (cases m) (auto simp: andThen_def split: sum.splits)

lemma andThen_Inr:
  "andThen m k = (Inr r, w') \<Longrightarrow> \<exists>x w1. m = (Inr x, w1) \<and> k x w1 = (Inr r, w')"
  by (cases m) (auto simp: andThen_def split: sum.splits)

lemma categorize_miss_value:
  "fst (categorize_miss env gen mid cats (external_fetch f) w) =
   fst (categorize_miss env gen mid cats (external_fetch f) w')"
proof (cases "f mid")
  case (Inl e)
  then show ?thesis by (simp add: categorize_miss_def andThen_def external_fetch_def)
next
  case (Inr d)
  obtain a b c where d: "d = (a, b, c)" by (cases d)
  obtain sys pr where p: "getCategorizationPrompt a b c cats = (sys, pr)"
    by (cases "getCategorizationPrompt a b c cats")
  from Inr d p show ?thesis
    using gso_fst [of env gen pr CategorizationResultSchema "Some sys" "Some Economy"
                      "Some ''categorize_email''" "emit (EvFetch mid) w" "emit (EvFetch mid) w'"]
    by (simp add: categorize_miss_def external_fetch_def andThen_fst_ret
          andThen_def [of "(Inr _, _)"])
qed

lemma cold_miss_value:
  "fst (cold_miss env gen prof d w) = fst (cold_miss env gen prof d w')"
proof -
  obtain a b c where d: "d = (a, b, c)" by (cases d)
  obtain sys pr where p: "getColdEmailPrompt a b c prof = (sys, pr)"
    by (cases "getColdEmailPrompt a b c prof")
  from d p show ?thesis
    using gso_fst [of env gen pr ColdEmailResultSchema "Some sys" "Some Economy"
                      "Some ''detect_cold_email''" w w']
    by (simp add: cold_miss_def andThen_fst_ret)
qed

lemma categorize_miss_ok_entry:
  assumes "categorize_miss env gen mid cats (external_fetch f) w = (Inr r, w')"
  shows "cache (llmCache w') (categorize_key mid) = Some \<lparr> data = r, timestamp = now w \<rparr> \<and>
         ttl (llmCache w') = ttl (llmCache w)"
proof (cases "f mid")
  case (Inl e)
  with assms show ?thesis by (simp add: categorize_miss_def andThen_def external_fetch_def)
next
  case (Inr d)
  obtain a b c where d: "d = (a, b, c)" by (cases d)
  obtain sys pr where p: "getCategorizationPrompt a b c cats = (sys, pr)"
    by (cases "getCategorizationPrompt a b c cats")
  obtain x w3 where g: "generateStructuredOutput env gen pr CategorizationResultSchema (Some sys)
                          (Some Economy) (Some ''categorize_email'') (emit (EvFetch mid) w)
                        = (x, w3)"
    by (cases "generateStructuredOutput env gen pr CategorizationResultSchema (Some sys)
                 (Some Economy) (Some ''categorize_email'') (emit (EvFetch mid) w)")
  from assms Inr d p g have x: "x = Inr r" and w': "w' = llmCache_set (categorize_key mid) r w3"
    by (auto simp: categorize_miss_def andThen_def external_fetch_def split: sum.splits)
  from g x have "llmCache w3 = llmCache w \<and> now w3 = now w"
    by (auto dest: gso_ok_world)
  with w' show ?thesis by simp
qed

lemma gso_fail_cache:
  "generateStructuredOutput env gen p s sys tier op w = (Inl e, w') \<Longrightarrow>
   llmCache w' = llmCache w"
  using gso_frame [of env gen p s sys tier op w] by simp

lemma categorize_miss_fail_cache:
  assumes "categorize_miss env gen mid cats (external_fetch f) w = (Inl e, w')"
  shows "llmCache w' = llmCache w"
proof (cases "f mid")
  case (Inl e')
  with assms show ?thesis by (auto simp: categorize_miss_def andThen_def external_fetch_def)
next
  case (Inr d)
  obtain a b c where d: "d = (a, b, c)" by (cases d)
  obtain sys pr where p: "getCategorizationPrompt a b c cats = (sys, pr)"
    by (cases "getCategorizationPrompt a b c cats")
  from assms Inr d p show ?thesis
    by (auto simp: categorize_miss_def external_fetch_def andThen_def [of "(Inr _, _)"]
        dest!: andThen_Inl dest: gso_fail_cache)
qed

lemma cold_miss_fail_cache:
  assumes "cold_miss env gen prof d w = (Inl e, w')"
  shows "llmCache w' = llmCache w"
proof -
  obtain a b c where d: "d = (a, b, c)" by (cases d)
  obtain sys pr where p: "getColdEmailPrompt a b c prof = (sys, pr)"
    by (cases "getColdEmailPrompt a b c prof")
  from assms d p show ?thesis
    by (auto simp: cold_miss_def dest!: andThen_Inl dest: gso_fail_cache)
qed

lemma categorizeEmail_value:
  "fst (categorizeEmail env gen mid cats (external_fetch f) w) =
     (case cache (llmCache w) (categorize_key mid) of
        None \<Rightarrow> fst (categorize_miss env gen mid cats (external_fetch f) w0)
      | Some e \<Rightarrow>
          if now w - timestamp e \<le> ttl (llmCache w) then Inr (data e)
          else fst (categorize_miss env gen mid cats (external_fetch f) w0))"
proof (cases "cache (llmCache w) (categorize_key mid)")
  case None
  then show ?thesis
    using categorize_miss_value [of env gen mid cats f _ w0]
    by (simp add: categorizeEmail_absent)
next
  case (Some e)
  show ?thesis
  proof (cases "now w - timestamp e \<le> ttl (llmCache w)")
    case True
    with Some show ?thesis by (simp add: categorizeEmail_live)
  next
    case False
    then have "now w - timestamp e > ttl (llmCache w)" by simp
    with Some False show ?thesis
      using categorize_miss_value [of env gen mid cats f _ w0]
      by (simp add: categorizeEmail_expired)
  qed
qed

lemma cold_after_fetch_value:
  "fst (cold_after_fetch env gen prof d w) =
     (case cache (llmCache w) (cold_key (fst d)) of
        None \<Rightarrow> fst (cold_miss env gen prof d w0)
      | Some e \<Rightarrow>
          if now w - timestamp e \<le> ttl (llmCache w) then Inr (data e)
          else fst (cold_miss env gen prof d w0))"
proof (cases "cache (llmCache w) (cold_key (fst d))")
  case None
  then show ?thesis
    using cold_miss_value [of env gen prof d _ w0]
    by (simp add: cold_after_fetch_absent)
next
  case (Some e)
  show ?thesis
  proof (cases "now w - timestamp e \<le> ttl (llmCache w)")
    case True
    with Some show ?thesis by (simp add: cold_after_fetch_live)
  next
    case False
    then have "now w - timestamp e > ttl (llmCache w)" by simp
    with Some False show ?thesis
      using cold_miss_value [of env gen prof d _ w0]
      by (simp add: cold_after_fetch_expired)
  qed
qed

lemma detectColdEmail_value:
  "fst (detectColdEmail env gen mid prof (external_fetch f) w) =
     (case f mid of
        Inl e \<Rightarrow> Inl e
      | Inr d \<Rightarrow> fst (cold_after_fetch env gen prof d (emit (EvFetch mid) w)))"
  by (simp add: detectColdEmail_unfold andThen_def external_fetch_def split: sum.splits)

lemma categorize_consistent:
  assumes "\<forall>e. cache (llmCache w) (categorize_key mid) = Some e \<longrightarrow>
             fst (categorizeEmail env gen mid cats (external_fetch f) (cleared w)) = Inr (data e)"
  shows "fst (categorizeEmail env gen mid cats (external_fetch f) w) =
         fst (categorizeEmail env gen mid cats (external_fetch f) (cleared w))"
  using assms
  by (simp add: categorizeEmail_value [of env gen mid cats f _ w] split: option.splits)

lemma categorize_repeat:
  assumes absent: "cache (llmCache w) (categorize_key mid) = None"
  shows "fst (categorizeEmail env gen mid cats (external_fetch f)
                (snd (categorizeEmail env gen mid cats (external_fetch f) w)\<lparr>now := t\<rparr>)) =
         fst (categorizeEmail env gen mid cats (external_fetch f) w) \<and>
         fst (categorizeEmail env gen mid cats (external_fetch f)
                (cleared (snd (categorizeEmail env gen mid cats (external_fetch f) w)\<lparr>now := t\<rparr>))) =
         fst (categorizeEmail env gen mid cats (external_fetch f) w)"
proof -
  let ?R = "categorizeEmail env gen mid cats (external_fetch f)"
  let ?M = "\<lambda>v. categorize_miss env gen mid cats (external_fetch f) v"
  let ?w = "emit (EvCacheGet (categorize_key mid)) w"
  obtain x w1 where run: "?R w = (x, w1)" by (cases "?R w")
  with absent have miss: "?M ?w = (x, w1)" by (simp add: categorizeEmail_absent)
  have x: "fst (?M w) = x"
    using categorize_miss_value [of env gen mid cats f w ?w] miss by simp
  have clr: "fst (?R (cleared (w1\<lparr>now := t\<rparr>))) = x"
    using x by (simp add: categorizeEmail_value [of env gen mid cats f _ w])
  have pop: "fst (?R (w1\<lparr>now := t\<rparr>)) = x"
  proof (cases x)
    case (Inl e)
    with miss have "llmCache w1 = llmCache ?w" by (auto dest: categorize_miss_fail_cache)
    with absent x show ?thesis
      by (simp add: categorizeEmail_value [of env gen mid cats f _ w])
  next
    case (Inr r)
    with miss have "cache (llmCache w1) (categorize_key mid)
                      = Some \<lparr> data = r, timestamp = now ?w \<rparr>"
      by (auto dest: categorize_miss_ok_entry)
    with x Inr show ?thesis
      by (simp add: categorizeEmail_value [of env gen mid cats f _ w])
  qed
  from run clr pop show ?thesis by simp
qed

lemma cold_consistent:
  assumes "\<forall>d e. f mid = Inr d \<and> cache (llmCache w) (cold_key (fst d)) = Some e \<longrightarrow>
             fst (detectColdEmail env gen mid prof (external_fetch f) (cleared w)) = Inr (data e)"
  shows "fst (detectColdEmail env gen mid prof (external_fetch f) w) =
         fst (detectColdEmail env gen mid prof (external_fetch f) (cleared w))"
proof (cases "f mid")
  case (Inl e)
  then show ?thesis by (simp add: detectColdEmail_value)
next
  case (Inr d)
  have clr: "fst (detectColdEmail env gen mid prof (external_fetch f) (cleared w)) =
             fst (cold_miss env gen prof d w)"
    using Inr
    by (simp add: detectColdEmail_value cold_after_fetch_value [of env gen prof d _ w])
  show ?thesis
  proof (cases "cache (llmCache w) (cold_key (fst d))")
    case None
    with Inr clr show ?thesis
      by (simp add: detectColdEmail_value cold_after_fetch_value [of env gen prof d _ w])
  next
    case (Some e)
    with assms Inr have "fst (detectColdEmail env gen mid prof (external_fetch f) (cleared w))
                          = Inr (data e)"
      by blast
    with Inr Some clr show ?thesis
      by (simp add: detectColdEmail_value cold_after_fetch_value [of env gen prof d _ w])
  qed
qed

lemma cold_repeat:
  assumes absent: "\<forall>d. f mid = Inr d \<longrightarrow> cache (llmCache w) (cold_key (fst d)) = None"
  shows "fst (detectColdEmail env gen mid prof (external_fetch f)
                (snd (detectColdEmail env gen mid prof (external_fetch f) w)\<lparr>now := t\<rparr>)) =
         fst (detectColdEmail env gen mid prof (external_fetch f) w) \<and>
         fst (detectColdEmail env gen mid prof (external_fetch f)
                (cleared (snd (detectColdEmail env gen mid prof (external_fetch f) w)\<lparr>now := t\<rparr>))) =
         fst (detectColdEmail env gen mid prof (external_fetch f) w)"
proof (cases "f mid")
  case (Inl e)
  then show ?thesis by (simp add: detectColdEmail_value)
next
  case (Inr d)
  let ?R = "detectColdEmail env gen mid prof (external_fetch f)"
  let ?key = "cold_key (fst d)"
  let ?w = "emit (EvCacheGet ?key) (emit (EvFetch mid) w)"
  from absent Inr have none: "cache (llmCache w) ?key = None" by simp
  obtain x w1 where run: "?R w = (x, w1)" by (cases "?R w")
  with Inr none have miss: "cold_miss env gen prof d ?w = (x, w1)"
    by (simp add: detectColdEmail_unfold andThen_def external_fetch_def cold_after_fetch_absent)
  have x: "fst (cold_miss env gen prof d w) = x"
    using cold_miss_value [of env gen prof d w ?w] miss by simp
  have clr: "fst (?R (cleared (w1\<lparr>now := t\<rparr>))) = x"
    using x Inr
    by (simp add: detectColdEmail_value cold_after_fetch_value [of env gen prof d _ w])
  have pop: "fst (?R (w1\<lparr>now := t\<rparr>)) = x"
  proof (cases x)
    case (Inl e)
    with miss have "llmCache w1 = llmCache ?w" by (auto dest: cold_miss_fail_cache)
    with none x Inr show ?thesis
      by (simp add: detectColdEmail_value cold_after_fetch_value [of env gen prof d _ w])
  next
    case (Inr r)
    with miss have "cache (llmCache w1) ?key = Some \<lparr> data = r, timestamp = now ?w \<rparr>"
      by (auto dest: cold_miss_ok_entry)
    with x Inr \<open>f mid = Inr d\<close> show ?thesis
      by (simp add: detectColdEmail_value cold_after_fetch_value [of env gen prof d _ w])
  qed
  from run clr pop show ?thesis by simp
qed

lemma context_ignores_cache:
  "fst (extractEmailContext env gen mid tid m (external_fetch f)
          (map_option external_fetch_thread g) (w\<lparr>llmCache := c\<rparr>)) =
   fst (extractEmailContext env gen mid tid m (external_fetch f)
          (map_option external_fetch_thread g) w)"
proof (cases "f mid")
  case (Inl e)
  then show ?thesis by (simp add: extractEmailContext_unfold andThen_def external_fetch_def)
next
  case (Inr d)
  let ?T = "\<lambda>v. fetchThreadHistory tid m (map_option external_fetch_thread g) v"
  have same: "fst (?T v) = fst (?T v')" for v v'
    by (rule fetchThreadHistory_value)
  have "fst (context_after_fetch env gen tid m (map_option external_fetch_thread g) d v) =
        fst (context_after_fetch env gen tid m (map_option external_fetch_thread g) d v')"
    for v v'
  proof (cases "fst (?T v)")
    case (Inl e)
    with same [of v' v] show ?thesis
      by (cases "?T v"; cases "?T v'") (simp add: context_after_fetch_def andThen_def)
  next
    case (Inr h)
    obtain sys pr where p: "getContextExtractionPrompt (fst d) (fst (snd d)) (snd (snd d)) h
                            = (sys, pr)"
      by (cases "getContextExtractionPrompt (fst d) (fst (snd d)) (snd (snd d)) h")
    from Inr same [of v' v] p show ?thesis
      using gso_fst [of env gen pr ContextExtractionResultSchema "Some sys" "Some Default"
                        "Some ''extract_context''" "snd (?T v)" "snd (?T v')"]
      by (cases "?T v"; cases "?T v'") (simp add: context_after_fetch_def andThen_def)
  qed
  with Inr show ?thesis
    by (simp add: extractEmailContext_unfold andThen_def external_fetch_def)
qed

section \<open>The facades on a hit and on a miss\<close>

lemma cache_events_append [simp]:
  "cache_events (xs @ ys) = cache_events xs @ cache_events ys"
  by (simp add: cache_events_def)

lemma gso_trace_ext:
  "\<exists>evs. trace (snd (generateStructuredOutput env gen p s sys tier op w)) = trace w @ evs \<and>
         cache_events evs = []"
proof (cases "getLLMConfig env")
  case (Inl e)
  then show ?thesis by (simp add: generateStructuredOutput_def cache_events_def)
next
  case (Inr config)
  let ?c = "if tier = Some Economy then economy_tier config else default_tier config"
  show ?thesis
  proof (cases "getProvider ?c")
    case (Inl e)
    with Inr show ?thesis by (simp add: generateStructuredOutput_def cache_events_def)
  next
    case sdk: (Inr sdk_instance)
    show ?thesis
    proof (cases "gen sdk_instance (model ?c) s p sys")
      case (Inl e)
      with Inr sdk show ?thesis
        by (simp add: generateStructuredOutput_def Let_def cache_events_def)
    next
      case res: (Inr result)
      with Inr sdk show ?thesis
        by (cases "gen_usage result")
           (auto simp: generateStructuredOutput_def Let_def cache_events_def)
    qed
  qed
qed

lemma entry_live_cases:
  "entry_live w k \<longleftrightarrow>
     (\<exists>e. cache (llmCache w) k = Some e \<and> now w - timestamp e \<le> ttl (llmCache w))"
  by (simp add: entry_live_def split: option.splits)

lemma categorizeEmail_miss:
  assumes "\<not> entry_live w (categorize_key mid)"
  shows "\<exists>w1. categorizeEmail env gen mid cats ge w = categorize_miss env gen mid cats ge w1 \<and>
              trace w1 = trace w @ [EvCacheGet (categorize_key mid)] \<and> now w1 = now w"
proof (cases "cache (llmCache w) (categorize_key mid)")
  case None
  from categorizeEmail_absent [OF None, of env gen cats ge] show ?thesis
    by (intro exI [of _ "emit (EvCacheGet (categorize_key mid)) w"]) simp
next
  case (Some e)
  with assms have old: "now w - timestamp e > ttl (llmCache w)"
    by (simp add: entry_live_def)
  from categorizeEmail_expired [OF Some old, of env gen cats ge] show ?thesis
    by (intro exI [of _ "emit (EvCacheGet (categorize_key mid))
          (w\<lparr>llmCache := (llmCache w)\<lparr>cache := (cache (llmCache w))(categorize_key mid := None)\<rparr>\<rparr>)"])
       simp
qed

lemma cold_after_fetch_miss:
  assumes "\<not> entry_live w (cold_key (fst d))"
  shows "\<exists>w1. cold_after_fetch env gen prof d w = cold_miss env gen prof d w1 \<and>
              trace w1 = trace w @ [EvCacheGet (cold_key (fst d))] \<and> now w1 = now w"
proof (cases "cache (llmCache w) (cold_key (fst d))")
  case None
  from cold_after_fetch_absent [OF None, of env gen prof] show ?thesis
    by (intro exI [of _ "emit (EvCacheGet (cold_key (fst d))) w"]) simp
next
  case (Some e)
  with assms have old: "now w - timestamp e > ttl (llmCache w)"
    by (simp add: entry_live_def)
  from cold_after_fetch_expired [OF Some old, of env gen prof] show ?thesis
    by (intro exI [of _ "emit (EvCacheGet (cold_key (fst d)))
          (w\<lparr>llmCache := (llmCache w)\<lparr>cache := (cache (llmCache w))(cold_key (fst d) := None)\<rparr>\<rparr>)"])
       simp
qed

lemma categorize_miss_fetch_fails:
  "f mid = Inl err \<Longrightarrow>
   categorize_miss env gen mid cats (external_fetch f) w1 = (Inl err, emit (EvFetch mid) w1)"
  by (simp add: categorize_miss_def andThen_def external_fetch_def)

lemma categorize_miss_trace_ext:
  "\<exists>evs. trace (snd (categorize_miss env gen mid cats (external_fetch f) w1))
           = trace w1 @ [EvFetch mid] @ evs"
proof (cases "f mid")
  case (Inl err)
  then show ?thesis by (simp add: categorize_miss_fetch_fails)
next
  case (Inr d)
  obtain a b c where d: "d = (a, b, c)" by (cases d)
  obtain sys pr where p: "getCategorizationPrompt a b c cats = (sys, pr)"
    by (cases "getCategorizationPrompt a b c cats")
  let ?g = "generateStructuredOutput env gen pr CategorizationResultSchema (Some sys)
              (Some Economy) (Some ''categorize_email'') (emit (EvFetch mid) w1)"
  obtain x w3 where g: "?g = (x, w3)" by (cases ?g)
  from gso_trace_ext [of env gen pr CategorizationResultSchema "Some sys" "Some Economy"
                         "Some ''categorize_email''" "emit (EvFetch mid) w1"] g
  obtain evs where evs: "trace w3 = trace w1 @ [EvFetch mid] @ evs" by auto
  from Inr d p g evs show ?thesis
    by (cases x) (simp_all add: categorize_miss_def external_fetch_def andThen_def)
qed

lemma cold_miss_trace_ext:
  "\<exists>evs. trace (snd (cold_miss env gen prof d w1)) = trace w1 @ evs"
proof -
  obtain a b c where d: "d = (a, b, c)" by (cases d)
  obtain sys pr where p: "getColdEmailPrompt a b c prof = (sys, pr)"
    by (cases "getColdEmailPrompt a b c prof")
  let ?g = "generateStructuredOutput env gen pr ColdEmailResultSchema (Some sys)
              (Some Economy) (Some ''detect_cold_email'') w1"
  obtain x w3 where g: "?g = (x, w3)" by (cases ?g)
  from gso_trace_ext [of env gen pr ColdEmailResultSchema "Some sys" "Some Economy"
                         "Some ''detect_cold_email''" w1] g
  obtain evs where evs: "trace w3 = trace w1 @ evs" by auto
  from d p g evs show ?thesis
    by (cases x) (simp_all add: cold_miss_def andThen_def)
qed

lemma categorize_hit:
  assumes "entry_live w (categorize_key mid)"
  shows "\<exists>e. cache (llmCache w) (categorize_key mid) = Some e \<and>
             categorizeEmail env gen mid cats ge w =
               (Inr (data e), emit (EvCacheGet (categorize_key mid)) w)"
  using assms categorizeEmail_live [of w mid _ env gen cats ge]
  by (auto simp: entry_live_cases)

lemma categorize_on_miss:
  assumes miss: "\<not> entry_live w (categorize_key mid)"
  shows "(\<exists>evs. trace (snd (categorizeEmail env gen mid cats (external_fetch f) w)) =
                 trace w @ [EvCacheGet (categorize_key mid), EvFetch mid] @ evs) \<and>
         (\<forall>err. f mid = Inl err \<longrightarrow>
            fst (categorizeEmail env gen mid cats (external_fetch f) w) = Inl err \<and>
            trace (snd (categorizeEmail env gen mid cats (external_fetch f) w)) =
              trace w @ [EvCacheGet (categorize_key mid), EvFetch mid]) \<and>
         (\<forall>r. fst (categorizeEmail env gen mid cats (external_fetch f) w) = Inr r \<longrightarrow>
            trace (snd (categorizeEmail env gen mid cats (external_fetch f) w)) =
              trace w @ [EvCacheGet (categorize_key mid), EvFetch mid,
                         EvVendor CategorizationResultSchema,
                         EvCacheSet (categorize_key mid)] \<and>
            cache (llmCache (snd (categorizeEmail env gen mid cats (external_fetch f) w)))
              (categorize_key mid) = Some \<lparr> data = r, timestamp = now w \<rparr>)"
proof -
  let ?R = "categorizeEmail env gen mid cats (external_fetch f) w"
  from categorizeEmail_miss [OF miss, of env gen cats "external_fetch f"]
  obtain w1 where run: "?R = categorize_miss env gen mid cats (external_fetch f) w1"
    and tr: "trace w1 = trace w @ [EvCacheGet (categorize_key mid)]"
    and nw: "now w1 = now w"
    by blast
  from categorize_miss_trace_ext [of env gen mid cats f w1] run tr
  have ext: "\<exists>evs. trace (snd ?R) = trace w @ [EvCacheGet (categorize_key mid), EvFetch mid] @ evs"
    by simp
  have fail: "fst ?R = Inl err \<and>
              trace (snd ?R) = trace w @ [EvCacheGet (categorize_key mid), EvFetch mid]"
    if "f mid = Inl err" for err
    using that run tr by (simp add: categorize_miss_fetch_fails)
  have ok: "trace (snd ?R) =
              trace w @ [EvCacheGet (categorize_key mid), EvFetch mid,
                         EvVendor CategorizationResultSchema,
                         EvCacheSet (categorize_key mid)] \<and>
            cache (llmCache (snd ?R)) (categorize_key mid)
              = Some \<lparr> data = r, timestamp = now w \<rparr>"
    if "fst ?R = Inr r" for r
  proof -
    from that run have m: "categorize_miss env gen mid cats (external_fetch f) w1
                             = (Inr r, snd ?R)"
      by (simp add: prod_eq_iff)
    from categorize_miss_ok_trace [OF m] categorize_miss_ok_entry [OF m] tr nw
    show ?thesis by simp
  qed
  from ext fail ok show ?thesis by blast
qed

lemma cold_fetch_first:
  "\<exists>evs. trace (snd (detectColdEmail env gen mid prof (external_fetch f) w)) =
          trace w @ [EvFetch mid] @ evs"
proof (cases "f mid")
  case (Inl err)
  then show ?thesis by (simp add: detectColdEmail_unfold andThen_def external_fetch_def)
next
  case (Inr d)
  let ?w = "emit (EvFetch mid) w"
  have run: "detectColdEmail env gen mid prof (external_fetch f) w
               = cold_after_fetch env gen prof d ?w"
    using Inr by (simp add: detectColdEmail_unfold andThen_def external_fetch_def)
  show ?thesis
  proof (cases "entry_live ?w (cold_key (fst d))")
    case True
    then obtain e where "cache (llmCache ?w) (cold_key (fst d)) = Some e"
      "now ?w - timestamp e \<le> ttl (llmCache ?w)"
      by (auto simp: entry_live_cases)
    from cold_after_fetch_live [OF this, of env gen prof] run show ?thesis by simp
  next
    case False
    from cold_after_fetch_miss [OF False, of env gen prof]
    obtain w1 where "cold_after_fetch env gen prof d ?w = cold_miss env gen prof d w1"
      "trace w1 = trace ?w @ [EvCacheGet (cold_key (fst d))]" by blast
    with cold_miss_trace_ext [of env gen prof d w1] run show ?thesis by auto
  qed
qed

lemma cold_fetch_fails:
  "f mid = Inl err \<Longrightarrow>
   detectColdEmail env gen mid prof (external_fetch f) w = (Inl err, emit (EvFetch mid) w)"
  by (simp add: detectColdEmail_unfold andThen_def external_fetch_def)

lemma entry_live_emit [simp]: "entry_live (emit ev w) k = entry_live w k"
  by (simp add: entry_live_def split: option.splits)

lemma cold_hit:
  assumes "f mid = Inr d" and "entry_live w (cold_key (fst d))"
  shows "\<exists>e. cache (llmCache w) (cold_key (fst d)) = Some e \<and>
             detectColdEmail env gen mid prof (external_fetch f) w =
               (Inr (data e),
                emit (EvCacheGet (cold_key (fst d))) (emit (EvFetch mid) w))"
proof -
  from assms(2) obtain e where e: "cache (llmCache w) (cold_key (fst d)) = Some e"
    "now w - timestamp e \<le> ttl (llmCache w)"
    by (auto simp: entry_live_cases)
  then have "cache (llmCache (emit (EvFetch mid) w)) (cold_key (fst d)) = Some e"
    "now (emit (EvFetch mid) w) - timestamp e \<le> ttl (llmCache (emit (EvFetch mid) w))"
    by simp_all
  from cold_after_fetch_live [OF this, of env gen prof] assms(1) e(1) show ?thesis
    by (simp add: detectColdEmail_unfold andThen_def external_fetch_def)
qed

lemma cold_on_miss:
  assumes d: "f mid = Inr d" and miss: "\<not> entry_live w (cold_key (fst d))"
  shows "(\<exists>evs. trace (snd (detectColdEmail env gen mid prof (external_fetch f) w)) =
                 trace w @ [EvFetch mid, EvCacheGet (cold_key (fst d))] @ evs) \<and>
         (\<forall>r. fst (detectColdEmail env gen mid prof (external_fetch f) w) = Inr r \<longrightarrow>
            trace (snd (detectColdEmail env gen mid prof (external_fetch f) w)) =
              trace w @ [EvFetch mid, EvCacheGet (cold_key (fst d)),
                         EvVendor ColdEmailResultSchema, EvCacheSet (cold_key (fst d))] \<and>
            cache (llmCache (snd (detectColdEmail env gen mid prof (external_fetch f) w)))
              (cold_key (fst d)) = Some \<lparr> data = r, timestamp = now w \<rparr>)"
proof -
  let ?R = "detectColdEmail env gen mid prof (external_fetch f) w"
  let ?w = "emit (EvFetch mid) w"
  have run: "?R = cold_after_fetch env gen prof d ?w"
    using d by (simp add: detectColdEmail_unfold andThen_def external_fetch_def)
  from miss have "\<not> entry_live ?w (cold_key (fst d))" by simp
  from cold_after_fetch_miss [OF this, of env gen prof]
  obtain w1 where m: "cold_after_fetch env gen prof d ?w = cold_miss env gen prof d w1"
    and tr: "trace w1 = trace w @ [EvFetch mid, EvCacheGet (cold_key (fst d))]"
    and nw: "now w1 = now w"
    by auto
  from cold_miss_trace_ext [of env gen prof d w1] run m tr
  have ext: "\<exists>evs. trace (snd ?R) = trace w @ [EvFetch mid, EvCacheGet (cold_key (fst d))] @ evs"
    by simp
  have ok: "trace (snd ?R) =
              trace w @ [EvFetch mid, EvCacheGet (cold_key (fst d)),
                         EvVendor ColdEmailResultSchema, EvCacheSet (cold_key (fst d))] \<and>
            cache (llmCache (snd ?R)) (cold_key (fst d))
              = Some \<lparr> data = r, timestamp = now w \<rparr>"
    if "fst ?R = Inr r" for r
  proof -
    from that run m have c: "cold_miss env gen prof d w1 = (Inr r, snd ?R)"
      by (simp add: prod_eq_iff)
    from cold_miss_ok_trace [OF c] cold_miss_ok_entry [OF c] tr nw
    show ?thesis by simp
  qed
  from ext ok show ?thesis by blast
qed

lemma context_frame:
  "llmCache (snd (extractEmailContext env gen mid tid m (external_fetch f)
                    (map_option external_fetch_thread g) w)) = llmCache w \<and>
   cache_events (trace (snd (extractEmailContext env gen mid tid m (external_fetch f)
                               (map_option external_fetch_thread g) w)))
     = cache_events (trace w) \<and>
   (\<exists>evs. trace (snd (extractEmailContext env gen mid tid m (external_fetch f)
                        (map_option external_fetch_thread g) w))
           = trace w @ [EvFetch mid] @ evs)"
proof (cases "f mid")
  case (Inl err)
  then show ?thesis
    by (simp add: extractEmailContext_unfold andThen_def external_fetch_def cache_events_def)
next
  case (Inr d)
  let ?w = "emit (EvFetch mid) w"
  let ?T = "fetchThreadHistory tid m (map_option external_fetch_thread g) ?w"
  let ?C = "context_after_fetch env gen tid m (map_option external_fetch_thread g) d ?w"
  have run: "extractEmailContext env gen mid tid m (external_fetch f)
               (map_option external_fetch_thread g) w = ?C"
    using Inr by (simp add: extractEmailContext_unfold andThen_def external_fetch_def)
  obtain h w2 where th: "?T = (h, w2)" by (cases ?T)
  from fetchThreadHistory_world [of tid m g ?w] th
  have w2: "w2 = ?w\<lparr>trace := trace ?w @ thread_events tid g\<rparr>" by simp
  have te: "cache_events (thread_events tid g) = []"
    by (simp add: thread_events_def cache_events_def split: option.splits)
  have "llmCache (snd ?C) = llmCache w \<and>
        cache_events (trace (snd ?C)) = cache_events (trace w) \<and>
        (\<exists>evs. trace (snd ?C) = trace w @ [EvFetch mid] @ evs)"
  proof (cases h)
    case (Inl e)
    with th w2 te show ?thesis
      by (simp add: context_after_fetch_def andThen_def cache_events_def)
  next
    case hist: (Inr hs)
    obtain sys pr where p: "getContextExtractionPrompt (fst d) (fst (snd d)) (snd (snd d)) hs
                            = (sys, pr)"
      by (cases "getContextExtractionPrompt (fst d) (fst (snd d)) (snd (snd d)) hs")
    let ?G = "generateStructuredOutput env gen pr ContextExtractionResultSchema (Some sys)
                (Some Default) (Some ''extract_context'') w2"
    from th hist p have c: "?C = ?G" by (simp add: context_after_fetch_def andThen_def)
    from gso_trace_ext [of env gen pr ContextExtractionResultSchema "Some sys" "Some Default"
                           "Some ''extract_context''" w2]
    obtain evs where evs: "trace (snd ?G) = trace w2 @ evs" "cache_events evs = []" by blast
    have "llmCache (snd ?G) = llmCache w2" by simp
    with c evs w2 te show ?thesis by (simp add: cache_events_def)
  qed
  with run show ?thesis by simp
qed

lemma categorize_miss_result:
  assumes "f mid = Inr d"
  shows "fst (categorize_miss env gen mid cats (external_fetch f) w1) =
         fst (generateStructuredOutput env gen
                (snd (getCategorizationPrompt (fst d) (fst (snd d)) (snd (snd d)) cats))
                CategorizationResultSchema
                (Some (fst (getCategorizationPrompt (fst d) (fst (snd d)) (snd (snd d)) cats)))
                (Some Economy) (Some ''categorize_email'') w)"
proof -
  obtain a b c where d: "d = (a, b, c)" by (cases d)
  obtain sys pr where p: "getCategorizationPrompt a b c cats = (sys, pr)"
    by (cases "getCategorizationPrompt a b c cats")
  from assms d p show ?thesis
    using gso_fst [of env gen pr CategorizationResultSchema "Some sys" "Some Economy"
                      "Some ''categorize_email''" "emit (EvFetch mid) w1" w]
    by (simp add: categorize_miss_def external_fetch_def andThen_fst_ret
          andThen_def [of "(Inr _, _)"])
qed

lemma categorize_result_on_miss:
  assumes miss: "\<not> entry_live w (categorize_key mid)" and d: "f mid = Inr d"
  shows "fst (categorizeEmail env gen mid cats (external_fetch f) w) =
         fst (generateStructuredOutput env gen
                (snd (getCategorizationPrompt (fst d) (fst (snd d)) (snd (snd d)) cats))
                CategorizationResultSchema
                (Some (fst (getCategorizationPrompt (fst d) (fst (snd d)) (snd (snd d)) cats)))
                (Some Economy) (Some ''categorize_email'') w)"
proof -
  from categorizeEmail_miss [OF miss, of env gen cats "external_fetch f"]
  obtain w1 where "categorizeEmail env gen mid cats (external_fetch f) w
                     = categorize_miss env gen mid cats (external_fetch f) w1"
    by blast
  with d categorize_miss_result [where f = f and mid = mid and d = d and env = env
                                    and gen = gen and cats = cats and ?w1.0 = w1 and w = w]
  show ?thesis by simp
qed

lemma cold_miss_result:
  "fst (cold_miss env gen prof d w1) =
   fst (generateStructuredOutput env gen
          (snd (getColdEmailPrompt (fst d) (fst (snd d)) (snd (snd d)) prof))
          ColdEmailResultSchema
          (Some (fst (getColdEmailPrompt (fst d) (fst (snd d)) (snd (snd d)) prof)))
          (Some Economy) (Some ''detect_cold_email'') w)"
proof -
  obtain a b c where d: "d = (a, b, c)" by (cases d)
  obtain sys pr where p: "getColdEmailPrompt a b c prof = (sys, pr)"
    by (cases "getColdEmailPrompt a b c prof")
  from d p show ?thesis
    using gso_fst [of env gen pr ColdEmailResultSchema "Some sys" "Some Economy"
                      "Some ''detect_cold_email''" w1 w]
    by (simp add: cold_miss_def andThen_fst_ret)
qed

lemma cold_result_on_miss:
  assumes d: "f mid = Inr d" and miss: "\<not> entry_live w (cold_key (fst d))"
  shows "fst (detectColdEmail env gen mid prof (external_fetch f) w) =
         fst (generateStructuredOutput env gen
                (snd (getColdEmailPrompt (fst d) (fst (snd d)) (snd (snd d)) prof))
                ColdEmailResultSchema
                (Some (fst (getColdEmailPrompt (fst d) (fst (snd d)) (snd (snd d)) prof)))
                (Some Economy) (Some ''detect_cold_email'') w)"
proof -
  let ?w = "emit (EvFetch mid) w"
  have run: "detectColdEmail env gen mid prof (external_fetch f) w
               = cold_after_fetch env gen prof d ?w"
    using d by (simp add: detectColdEmail_unfold andThen_def external_fetch_def)
  from miss have "\<not> entry_live ?w (cold_key (fst d))" by simp
  from cold_after_fetch_miss [OF this, of env gen prof]
  obtain w1 where "cold_after_fetch env gen prof d ?w = cold_miss env gen prof d w1"
    by blast
  with run cold_miss_result [of env gen prof d w1 w] show ?thesis by simp
qed

section \<open>Order of effects in the facades\<close>

text \<open>
  Claim C9, as the code has it, over the external fetch capabilities.

  \<^verbatim>\<open>categorizeEmail\<close> reads the cache first. When the entry under
  \<^verbatim>\<open>categorize:<messageId>\<close> is live, the call returns the entry's value and its only
  effect is the cache read: no fetch. When it is not, the call goes on with the fetch
  right after the cache read; a failing fetch fails the call with nothing after it; and a
  call that returns a result has made, in this order, the cache read, the fetch, the
  vendor call and the cache write, and the cache holds the result under the key.
  Whenever the entry is not live and the fetch succeeds, the call returns what structured
  output returns, result or error, for the categorization prompt of the fetched data in
  the economy tier.

  \<^verbatim>\<open>detectColdEmail\<close> fetches first, in every call, and a failing fetch fails the
  call with no cache access. With the email data, it reads the cache under
  \<^verbatim>\<open>cold:<sender>\<close>: a live entry is returned, the effects being the fetch and the
  cache read; otherwise a call that returns a result has made, in this order, the fetch,
  the cache read, the vendor call and the cache write, and the cache holds the result
  under the key; and whenever the entry is not live, the call returns what structured
  output returns, result or error, for the cold-email prompt of the fetched data in the
  economy tier.

  \<^verbatim>\<open>extractEmailContext\<close> fetches the email first, in every call; a call that returns a
  result has made the fetch, the thread fetch when it is asked for one, and the vendor
  call; no call of it changes the cache or adds a cache event to the trace.
\<close>

theorem facade_effect_order:
  "(entry_live w (categorize_key mid) \<longrightarrow>
      (\<exists>e. cache (llmCache w) (categorize_key mid) = Some e \<and>
           categorizeEmail env gen mid cats (external_fetch f) w =
             (Inr (data e), emit (EvCacheGet (categorize_key mid)) w))) \<and>
   (\<not> entry_live w (categorize_key mid) \<longrightarrow>
      (\<exists>evs. trace (snd (categorizeEmail env gen mid cats (external_fetch f) w)) =
              trace w @ [EvCacheGet (categorize_key mid), EvFetch mid] @ evs) \<and>
      (\<forall>err. f mid = Inl err \<longrightarrow>
         fst (categorizeEmail env gen mid cats (external_fetch f) w) = Inl err \<and>
         trace (snd (categorizeEmail env gen mid cats (external_fetch f) w)) =
           trace w @ [EvCacheGet (categorize_key mid), EvFetch mid]) \<and>
      (\<forall>r. fst (categorizeEmail env gen mid cats (external_fetch f) w) = Inr r \<longrightarrow>
         trace (snd (categorizeEmail env gen mid cats (external_fetch f) w)) =
           trace w @ [EvCacheGet (categorize_key mid), EvFetch mid,
                      EvVendor CategorizationResultSchema,
                      EvCacheSet (categorize_key mid)] \<and>
         cache (llmCache (snd (categorizeEmail env gen mid cats (external_fetch f) w)))
           (categorize_key mid) = Some \<lparr> data = r, timestamp = now w \<rparr>)) \<and>
   (\<exists>evs. trace (snd (detectColdEmail env gen mid prof (external_fetch f) w)) =
           trace w @ [EvFetch mid] @ evs) \<and>
   (\<forall>err. f mid = Inl err \<longrightarrow>
      detectColdEmail env gen mid prof (external_fetch f) w = (Inl err, emit (EvFetch mid) w)) \<and>
   (\<forall>d. f mid = Inr d \<and> entry_live w (cold_key (fst d)) \<longrightarrow>
      (\<exists>e. cache (llmCache w) (cold_key (fst d)) = Some e \<and>
           detectColdEmail env gen mid prof (external_fetch f) w =
             (Inr (data e),
              emit (EvCacheGet (cold_key (fst d))) (emit (EvFetch mid) w)))) \<and>
   (\<forall>d. f mid = Inr d \<and> \<not> entry_live w (cold_key (fst d)) \<longrightarrow>
      (\<exists>evs. trace (snd (detectColdEmail env gen mid prof (external_fetch f) w)) =
              trace w @ [EvFetch mid, EvCacheGet (cold_key (fst d))] @ evs) \<and>
      (\<forall>r. fst (detectColdEmail env gen mid prof (external_fetch f) w) = Inr r \<longrightarrow>
         trace (snd (detectColdEmail env gen mid prof (external_fetch f) w)) =
           trace w @ [EvFetch mid, EvCacheGet (cold_key (fst d)),
                      EvVendor ColdEmailResultSchema, EvCacheSet (cold_key (fst d))] \<and>
         cache (llmCache (snd (detectColdEmail env gen mid prof (external_fetch f) w)))
           (cold_key (fst d)) = Some \<lparr> data = r, timestamp = now w \<rparr>)) \<and>
   (\<forall>r w'. extractEmailContext env gen mid tid m (external_fetch f)
              (map_option external_fetch_thread g) w = (Inr r, w') \<longrightarrow>
      trace w' = trace w @ [EvFetch mid] @ thread_events tid g @
                 [EvVendor ContextExtractionResultSchema]) \<and>
   llmCache (snd (extractEmailContext env gen mid tid m (external_fetch f)
                    (map_option external_fetch_thread g) w)) = llmCache w \<and>
   cache_events (trace (snd (extractEmailContext env gen mid tid m (external_fetch f)
                               (map_option external_fetch_thread g) w)))
     = cache_events (trace w) \<and>
   (\<exists>evs. trace (snd (extractEmailContext env gen mid tid m (external_fetch f)
                        (map_option external_fetch_thread g) w))
           = trace w @ [EvFetch mid] @ evs) \<and>
   (\<forall>d. f mid = Inr d \<and> \<not> entry_live w (categorize_key mid) \<longrightarrow>
      fst (categorizeEmail env gen mid cats (external_fetch f) w) =
      fst (generateStructuredOutput env gen
             (snd (getCategorizationPrompt (fst d) (fst (snd d)) (snd (snd d)) cats))
             CategorizationResultSchema
             (Some (fst (getCategorizationPrompt (fst d) (fst (snd d)) (snd (snd d)) cats)))
             (Some Economy) (Some ''categorize_email'') w)) \<and>
   (\<forall>d. f mid = Inr d \<and> \<not> entry_live w (cold_key (fst d)) \<longrightarrow>
      fst (detectColdEmail env gen mid prof (external_fetch f) w) =
      fst (generateStructuredOutput env gen
             (snd (getColdEmailPrompt (fst d) (fst (snd d)) (snd (snd d)) prof))
             ColdEmailResultSchema
             (Some (fst (getColdEmailPrompt (fst d) (fst (snd d)) (snd (snd d)) prof)))
             (Some Economy) (Some ''detect_cold_email'') w))"
proof -
  note c_hit = categorize_hit [of w mid env gen cats "external_fetch f"]
  note c_miss = categorize_on_miss [of w mid env gen cats f]
  note d_first = cold_fetch_first [of env gen mid prof f w]
  note d_fail = cold_fetch_fails [of f mid _ env gen prof w]
  note d_hit = cold_hit [of f mid _ w env gen prof]
  note d_miss = cold_on_miss [of f mid _ w env gen prof]
  note x_ok = extractEmailContext_ok_trace [of env gen mid tid m f g w]
  note x_frame = context_frame [of env gen mid tid m f g w]
  have 1: "entry_live w (categorize_key mid) \<longrightarrow>
      (\<exists>e. cache (llmCache w) (categorize_key mid) = Some e \<and>
           categorizeEmail env gen mid cats (external_fetch f) w =
             (Inr (data e), emit (EvCacheGet (categorize_key mid)) w))"
    using c_hit by blast
  have 4: "\<forall>err. f mid = Inl err \<longrightarrow>
      detectColdEmail env gen mid prof (external_fetch f) w = (Inl err, emit (EvFetch mid) w)"
    using d_fail by blast
  have 5: "\<forall>d. f mid = Inr d \<and> entry_live w (cold_key (fst d)) \<longrightarrow>
      (\<exists>e. cache (llmCache w) (cold_key (fst d)) = Some e \<and>
           detectColdEmail env gen mid prof (external_fetch f) w =
             (Inr (data e),
              emit (EvCacheGet (cold_key (fst d))) (emit (EvFetch mid) w)))"
    using d_hit by blast
  have 6: "\<forall>d. f mid = Inr d \<and> \<not> entry_live w (cold_key (fst d)) \<longrightarrow>
      (\<exists>evs. trace (snd (detectColdEmail env gen mid prof (external_fetch f) w)) =
              trace w @ [EvFetch mid, EvCacheGet (cold_key (fst d))] @ evs) \<and>
      (\<forall>r. fst (detectColdEmail env gen mid prof (external_fetch f) w) = Inr r \<longrightarrow>
         trace (snd (detectColdEmail env gen mid prof (external_fetch f) w)) =
           trace w @ [EvFetch mid, EvCacheGet (cold_key (fst d)),
                      EvVendor ColdEmailResultSchema, EvCacheSet (cold_key (fst d))] \<and>
         cache (llmCache (snd (detectColdEmail env gen mid prof (external_fetch f) w)))
           (cold_key (fst d)) = Some \<lparr> data = r, timestamp = now w \<rparr>)"
    using d_miss by blast
  have 7: "\<forall>r w'. extractEmailContext env gen mid tid m (external_fetch f)
              (map_option external_fetch_thread g) w = (Inr r, w') \<longrightarrow>
      trace w' = trace w @ [EvFetch mid] @ thread_events tid g @
                 [EvVendor ContextExtractionResultSchema]"
    using x_ok by blast
  have 8: "\<forall>d. f mid = Inr d \<and> \<not> entry_live w (categorize_key mid) \<longrightarrow>
      fst (categorizeEmail env gen mid cats (external_fetch f) w) =
      fst (generateStructuredOutput env gen
             (snd (getCategorizationPrompt (fst d) (fst (snd d)) (snd (snd d)) cats))
             CategorizationResultSchema
             (Some (fst (getCategorizationPrompt (fst d) (fst (snd d)) (snd (snd d)) cats)))
             (Some Economy) (Some ''categorize_email'') w)"
    using categorize_result_on_miss [of w mid f _ env gen cats] by blast
  have 9: "\<forall>d. f mid = Inr d \<and> \<not> entry_live w (cold_key (fst d)) \<longrightarrow>
      fst (detectColdEmail env gen mid prof (external_fetch f) w) =
      fst (generateStructuredOutput env gen
             (snd (getColdEmailPrompt (fst d) (fst (snd d)) (snd (snd d)) prof))
             ColdEmailResultSchema
             (Some (fst (getColdEmailPrompt (fst d) (fst (snd d)) (snd (snd d)) prof)))
             (Some Economy) (Some ''detect_cold_email'') w)"
    using cold_result_on_miss [of f mid _ w env gen prof] by blast
  show ?thesis
    by (intro conjI impI 1 [rule_format] c_miss [THEN conjunct1]
          c_miss [THEN conjunct2, THEN conjunct1]
          c_miss [THEN conjunct2, THEN conjunct2] d_first 4 5 6 7
          x_frame [THEN conjunct1] x_frame [THEN conjunct2, THEN conjunct1]
          x_frame [THEN conjunct2, THEN conjunct2] 8 9)
qed

text \<open>
  Claim C9 as stated fails for \<^verbatim>\<open>categorizeEmail\<close>: on an empty cache its first effect is
  the cache read, before the fetch; called again, it is answered from the cache and the
  only new event is the cache read, with no fetch.
\<close>

theorem cache_before_fetch_counterexample:
  "trace (snd (categorizeEmail env_anthropic vendor_sample ''m1'' None
                 (external_fetch store_snippet) world0))
     = [EvCacheGet ''categorize:m1'', EvFetch ''m1'', EvVendor CategorizationResultSchema,
        EvCacheSet ''categorize:m1''] \<and>
   trace (snd (categorizeEmail env_anthropic vendor_sample ''m1'' None
                 (external_fetch store_snippet)
                 (snd (categorizeEmail env_anthropic vendor_sample ''m1'' None
                         (external_fetch store_snippet) world0))))
     = [EvCacheGet ''categorize:m1'', EvFetch ''m1'', EvVendor CategorizationResultSchema,
        EvCacheSet ''categorize:m1'', EvCacheGet ''categorize:m1'']"
  by code_simp

text \<open>
  Witness for C9, on the sample store: the second categorization of \<^verbatim>\<open>m1\<close> is
  answered from the cache with no fetch; the first one, on a miss, makes the cache read,
  the fetch, the vendor call and the cache write; the categorization of an unknown
  message fails with the fetch error; the cold detection of \<^verbatim>\<open>m1\<close> on a miss makes
  the fetch, the cache read, the vendor call and the cache write; that of \<^verbatim>\<open>m2\<close> is
  then answered from the cache after its fetch; that of an unknown message fails after
  the fetch alone; the context extraction makes the fetch and the vendor call; and the
  cold detection of \<^verbatim>\<open>m1\<close> on a miss returns what structured output returns for its
  prompt.
\<close>

theorem facade_effect_order_witness:
  "fst (categorizeEmail env_anthropic vendor_sample ''m1'' None (external_fetch store_snippet)
          world_categorized) = Inr cat_work \<and>
   trace (snd (categorizeEmail env_anthropic vendor_sample ''m1'' None
                 (external_fetch store_snippet) world_categorized))
     = trace world_categorized @ [EvCacheGet (categorize_key ''m1'')] \<and>
   trace world_categorized =
     trace world0 @ [EvCacheGet (categorize_key ''m1''), EvFetch ''m1'',
                     EvVendor CategorizationResultSchema,
                     EvCacheSet (categorize_key ''m1'')] \<and>
   fst (categorizeEmail env_anthropic vendor_sample ''m404'' None
          (external_fetch store_snippet) world0) = Inl (FetchFailed ''message not found'') \<and>
   trace world_cold =
     trace world0 @ [EvFetch ''m1'', EvCacheGet (cold_key ''sales@vendor.com''),
                     EvVendor ColdEmailResultSchema,
                     EvCacheSet (cold_key ''sales@vendor.com'')] \<and>
   detectColdEmail env_anthropic vendor_sample ''m2'' None (external_fetch store_body)
     world_cold
     = (Inr cold_sales,
        emit (EvCacheGet (cold_key ''sales@vendor.com'')) (emit (EvFetch ''m2'') world_cold)) \<and>
   detectColdEmail env_anthropic vendor_sample ''m404'' None (external_fetch store_body)
     world0
     = (Inl (FetchFailed ''message not found''), emit (EvFetch ''m404'') world0) \<and>
   trace (snd (extractEmailContext env_anthropic vendor_sample ''m1'' None 10
                 (external_fetch store_body) (map_option external_fetch_thread None) world0))
     = trace world0 @ [EvFetch ''m1''] @ thread_events None None @
       [EvVendor ContextExtractionResultSchema] \<and>
   fst (detectColdEmail env_anthropic vendor_sample ''m1'' None (external_fetch store_body)
          world0) =
   fst (generateStructuredOutput env_anthropic vendor_sample
          (snd (getColdEmailPrompt ''sales@vendor.com'' ''Quick chat?''
                  ''I noticed your company'' None))
          ColdEmailResultSchema
          (Some (fst (getColdEmailPrompt ''sales@vendor.com'' ''Quick chat?''
                        ''I noticed your company'' None)))
          (Some Economy) (Some ''detect_cold_email'') world0)"
proof -
  note order = facade_effect_order
                 [where env = env_anthropic and gen = vendor_sample and cats = None
                    and prof = None and tid = None and m = 10 and g = None]
  let ?cat = "\<lambda>mid. categorizeEmail env_anthropic vendor_sample mid None
                      (external_fetch store_snippet)"
  let ?cold = "\<lambda>mid. detectColdEmail env_anthropic vendor_sample mid None
                       (external_fetch store_body)"
  have live: "entry_live world_categorized (categorize_key ''m1'')"
    and entry: "cache (llmCache world_categorized) (categorize_key ''m1'')
                  = Some \<lparr> data = cat_work, timestamp = 1000 \<rparr>"
    by code_simp+
  from order [where w = world_categorized and mid = "''m1''" and f = store_snippet,
              THEN conjunct1] live entry
  have hit: "?cat ''m1'' world_categorized
               = (Inr cat_work, emit (EvCacheGet (categorize_key ''m1'')) world_categorized)"
    by auto
  have miss0: "\<not> entry_live world0 (categorize_key ''m1'')"
    and ok0: "fst (?cat ''m1'' world0) = Inr cat_work"
    by code_simp+
  from order [where w = world0 and mid = "''m1''" and f = store_snippet,
              THEN conjunct2, THEN conjunct1] miss0 ok0
  have miss: "trace world_categorized =
     trace world0 @ [EvCacheGet (categorize_key ''m1''), EvFetch ''m1'',
                     EvVendor CategorizationResultSchema,
                     EvCacheSet (categorize_key ''m1'')]"
    unfolding world_categorized_def by blast
  have miss404: "\<not> entry_live world0 (categorize_key ''m404'')"
    and f404: "store_snippet ''m404'' = Inl (FetchFailed ''message not found'')"
    by code_simp+
  from order [where w = world0 and mid = "''m404''" and f = store_snippet,
              THEN conjunct2, THEN conjunct1] miss404 f404
  have nofetch: "fst (?cat ''m404'' world0) = Inl (FetchFailed ''message not found'')"
    by blast
  have d1: "store_body ''m1''
              = Inr (''sales@vendor.com'', ''Quick chat?'', ''I noticed your company'')"
    and d2: "store_body ''m2''
              = Inr (''sales@vendor.com'', ''Re: invoice'', ''Attached is the invoice'')"
    and b404: "store_body ''m404'' = Inl (FetchFailed ''message not found'')"
    by code_simp+
  have cmiss: "\<not> entry_live world0 (cold_key ''sales@vendor.com'')"
    and cok: "fst (?cold ''m1'' world0) = Inr cold_sales"
    and clive: "entry_live world_cold (cold_key ''sales@vendor.com'')"
    and centry: "cache (llmCache world_cold) (cold_key ''sales@vendor.com'')
                   = Some \<lparr> data = cold_sales, timestamp = 1000 \<rparr>"
    by code_simp+
  note cold0 = order [where w = world0 and mid = "''m1''" and f = store_body,
                      THEN conjunct2, THEN conjunct2, THEN conjunct2, THEN conjunct2,
                      THEN conjunct2, THEN conjunct1]
  from cold0 d1 cmiss cok
  have coldmiss: "trace world_cold =
     trace world0 @ [EvFetch ''m1'', EvCacheGet (cold_key ''sales@vendor.com''),
                     EvVendor ColdEmailResultSchema,
                     EvCacheSet (cold_key ''sales@vendor.com'')]"
    unfolding world_cold_def by fastforce
  note cold1 = order [where w = world_cold and mid = "''m2''" and f = store_body,
                      THEN conjunct2, THEN conjunct2, THEN conjunct2, THEN conjunct2,
                      THEN conjunct1]
  from cold1 d2 clive centry
  have coldhit: "?cold ''m2'' world_cold
     = (Inr cold_sales,
        emit (EvCacheGet (cold_key ''sales@vendor.com'')) (emit (EvFetch ''m2'') world_cold))"
    by fastforce
  from order [where w = world0 and mid = "''m404''" and f = store_body,
              THEN conjunct2, THEN conjunct2, THEN conjunct2, THEN conjunct1] b404
  have coldfail: "?cold ''m404'' world0
     = (Inl (FetchFailed ''message not found''), emit (EvFetch ''m404'') world0)"
    by blast
  have "fst (extractEmailContext env_anthropic vendor_sample ''m1'' None 10
               (external_fetch store_body) (map_option external_fetch_thread None) world0)
          = Inr ctx_sample"
    by code_simp
  then have "extractEmailContext env_anthropic vendor_sample ''m1'' None 10
               (external_fetch store_body) (map_option external_fetch_thread None) world0
             = (Inr ctx_sample,
                snd (extractEmailContext env_anthropic vendor_sample ''m1'' None 10
                       (external_fetch store_body) (map_option external_fetch_thread None)
                       world0))"
    by (simp add: prod_eq_iff)
  with order [where w = world0 and mid = "''m1''" and f = store_body,
              THEN conjunct2, THEN conjunct2, THEN conjunct2, THEN conjunct2,
              THEN conjunct2, THEN conjunct2, THEN conjunct1]
  have ctx: "trace (snd (extractEmailContext env_anthropic vendor_sample ''m1'' None 10
                 (external_fetch store_body) (map_option external_fetch_thread None) world0))
     = trace world0 @ [EvFetch ''m1''] @ thread_events None None @
       [EvVendor ContextExtractionResultSchema]"
    by blast
  from order [where w = world0 and mid = "''m1''" and f = store_body,
              THEN conjunct2, THEN conjunct2, THEN conjunct2, THEN conjunct2,
              THEN conjunct2, THEN conjunct2, THEN conjunct2, THEN conjunct2,
              THEN conjunct2, THEN conjunct2, THEN conjunct2] d1 cmiss
  have coldvalue: "fst (?cold ''m1'' world0) =
     fst (generateStructuredOutput env_anthropic vendor_sample
            (snd (getColdEmailPrompt ''sales@vendor.com'' ''Quick chat?''
                    ''I noticed your company'' None))
            ColdEmailResultSchema
            (Some (fst (getColdEmailPrompt ''sales@vendor.com'' ''Quick chat?''
                          ''I noticed your company'' None)))
            (Some Economy) (Some ''detect_cold_email'') world0)"
    by fastforce
  from hit miss nofetch coldmiss coldhit coldfail ctx coldvalue show ?thesis by simp
qed

section \<open>One vendor call per sender\<close>




section \<open>The cache as an optimisation\<close>

text \<open>
  Claim C3, as the code has it, for a vendor that is a function of its request. A
  categorization or cold detection returns the same result with the cache populated as
  with every entry removed, provided the entry under the request's key, if there is
  one, holds the result this request gets from the vendor. That is so for a repeated
  identical request: when the first request found no entry under its key, the same
  request repeated at any later time returns the first result, with the cache as the
  first request left it and with the cache cleared. Context extraction does not depend
  on the cache at all. And while the entry under the key of a categorization or of a
  cold detection is live, the call returns the value of that entry, whichever request
  wrote it.
\<close>

theorem cache_transparent_for_identical_request:
  "((\<forall>e. cache (llmCache w) (categorize_key mid) = Some e \<longrightarrow>
          fst (categorizeEmail env gen mid cats (external_fetch f) (cleared w)) = Inr (data e)) \<longrightarrow>
      fst (categorizeEmail env gen mid cats (external_fetch f) w) =
      fst (categorizeEmail env gen mid cats (external_fetch f) (cleared w))) \<and>
   (cache (llmCache w) (categorize_key mid) = None \<longrightarrow>
      (\<forall>t. fst (categorizeEmail env gen mid cats (external_fetch f)
                  (snd (categorizeEmail env gen mid cats (external_fetch f) w)\<lparr>now := t\<rparr>)) =
           fst (categorizeEmail env gen mid cats (external_fetch f) w) \<and>
           fst (categorizeEmail env gen mid cats (external_fetch f)
                  (cleared (snd (categorizeEmail env gen mid cats (external_fetch f) w)
                              \<lparr>now := t\<rparr>))) =
           fst (categorizeEmail env gen mid cats (external_fetch f) w))) \<and>
   ((\<forall>d e. f mid = Inr d \<and> cache (llmCache w) (cold_key (fst d)) = Some e \<longrightarrow>
          fst (detectColdEmail env gen mid prof (external_fetch f) (cleared w)) = Inr (data e)) \<longrightarrow>
      fst (detectColdEmail env gen mid prof (external_fetch f) w) =
      fst (detectColdEmail env gen mid prof (external_fetch f) (cleared w))) \<and>
   ((\<forall>d. f mid = Inr d \<longrightarrow> cache (llmCache w) (cold_key (fst d)) = None) \<longrightarrow>
      (\<forall>t. fst (detectColdEmail env gen mid prof (external_fetch f)
                  (snd (detectColdEmail env gen mid prof (external_fetch f) w)\<lparr>now := t\<rparr>)) =
           fst (detectColdEmail env gen mid prof (external_fetch f) w) \<and>
           fst (detectColdEmail env gen mid prof (external_fetch f)
                  (cleared (snd (detectColdEmail env gen mid prof (external_fetch f) w)
                              \<lparr>now := t\<rparr>))) =
           fst (detectColdEmail env gen mid prof (external_fetch f) w))) \<and>
   fst (extractEmailContext env gen mid tid m (external_fetch f)
          (map_option external_fetch_thread g) (cleared w)) =
   fst (extractEmailContext env gen mid tid m (external_fetch f)
          (map_option external_fetch_thread g) w) \<and>
   (entry_live w (categorize_key mid) \<longrightarrow>
      (\<exists>e. cache (llmCache w) (categorize_key mid) = Some e \<and>
           fst (categorizeEmail env gen mid cats (external_fetch f) w) = Inr (data e))) \<and>
   (\<forall>d. f mid = Inr d \<and> entry_live w (cold_key (fst d)) \<longrightarrow>
      (\<exists>e. cache (llmCache w) (cold_key (fst d)) = Some e \<and>
           fst (detectColdEmail env gen mid prof (external_fetch f) w) = Inr (data e)))"
proof -
  note a = categorize_consistent [where w = w and mid = mid and env = env and gen = gen
                                    and cats = cats and f = f]
  note b = categorize_repeat [where w = w and mid = mid and env = env and gen = gen
                                and cats = cats and f = f]
  note c = cold_consistent [where w = w and mid = mid and env = env and gen = gen
                              and prof = prof and f = f]
  note d = cold_repeat [where w = w and mid = mid and env = env and gen = gen
                          and prof = prof and f = f]
  note e = context_ignores_cache [where w = w and c = "cache_clear (llmCache w)" and env = env
                                    and gen = gen and mid = mid and tid = tid and m = m
                                    and f = f and g = g]
  have h: "entry_live w (categorize_key mid) \<longrightarrow>
      (\<exists>e. cache (llmCache w) (categorize_key mid) = Some e \<and>
           fst (categorizeEmail env gen mid cats (external_fetch f) w) = Inr (data e))"
    using categorize_hit [of w mid env gen cats "external_fetch f"] by fastforce
  have k: "\<forall>d. f mid = Inr d \<and> entry_live w (cold_key (fst d)) \<longrightarrow>
      (\<exists>e. cache (llmCache w) (cold_key (fst d)) = Some e \<and>
           fst (detectColdEmail env gen mid prof (external_fetch f) w) = Inr (data e))"
    using cold_hit [of f mid _ w env gen prof] by fastforce
  from a b c d e h k show ?thesis unfolding cleared_def by blast
qed

text \<open>
  Claim C3 as stated fails for a request whose key was populated by a different request:
  after a cold detection on \<^verbatim>\<open>m1\<close>, the detection on \<^verbatim>\<open>m2\<close> (same sender, another
  message) returns the cached verdict of \<^verbatim>\<open>m1\<close>, and with the cache cleared it returns
  the different verdict the vendor gives for \<^verbatim>\<open>m2\<close>.
\<close>

theorem cache_changes_result_counterexample:
  "fst (detectColdEmail env_anthropic vendor_sample ''m2'' None (external_fetch store_body)
          world_cold) = Inr cold_sales \<and>
   fst (detectColdEmail env_anthropic vendor_sample ''m2'' None (external_fetch store_body)
          (cleared world_cold)) = Inr cold_legit \<and>
   cold_sales \<noteq> cold_legit"
  by code_simp

text \<open>
  Witness for C3: on the sample store, the categorization and the cold detection of
  \<^verbatim>\<open>m1\<close>, repeated, return the same result with the cache populated and cleared, also
  two hours later, when the entry has expired; and the cold detection of \<^verbatim>\<open>m2\<close>,
  while the entry of the sender is live, returns the value of that entry.
\<close>

theorem cache_transparent_witness:
  "fst (categorizeEmail env_anthropic vendor_sample ''m1'' None (external_fetch store_snippet)
          world_categorized) =
   fst (categorizeEmail env_anthropic vendor_sample ''m1'' None (external_fetch store_snippet)
          (cleared world_categorized)) \<and>
   fst (categorizeEmail env_anthropic vendor_sample ''m1'' None (external_fetch store_snippet)
          (snd (categorizeEmail env_anthropic vendor_sample ''m1'' None
                  (external_fetch store_snippet) world0)\<lparr>now := 7200001\<rparr>)) =
   fst (categorizeEmail env_anthropic vendor_sample ''m1'' None (external_fetch store_snippet)
          world0) \<and>
   fst (detectColdEmail env_anthropic vendor_sample ''m1'' None (external_fetch store_body)
          world_cold) =
   fst (detectColdEmail env_anthropic vendor_sample ''m1'' None (external_fetch store_body)
          (cleared world_cold)) \<and>
   fst (detectColdEmail env_anthropic vendor_sample ''m1'' None (external_fetch store_body)
          (snd (detectColdEmail env_anthropic vendor_sample ''m1'' None
                  (external_fetch store_body) world0)\<lparr>now := 7200001\<rparr>)) =
   fst (detectColdEmail env_anthropic vendor_sample ''m1'' None (external_fetch store_body)
          world0) \<and>
   (entry_live world_cold (cold_key ''sales@vendor.com'') \<and>
    fst (detectColdEmail env_anthropic vendor_sample ''m2'' None (external_fetch store_body)
           world_cold) = Inr cold_sales)"
proof -
  note t = cache_transparent_for_identical_request
             [where env = env_anthropic and gen = vendor_sample and mid = "''m1''"
                and cats = None and prof = None]
  have cat_entry: "cache (llmCache world_categorized) (categorize_key ''m1'')
                     = Some \<lparr> data = cat_work, timestamp = 1000 \<rparr>"
    and cat_clr: "fst (categorizeEmail env_anthropic vendor_sample ''m1'' None
                         (external_fetch store_snippet) (cleared world_categorized))
                    = Inr cat_work"
    and cat_none: "cache (llmCache world0) (categorize_key ''m1'') = None"
    by code_simp+
  have d1: "store_body ''m1'' = Inr (''sales@vendor.com'', ''Quick chat?'', ''I noticed your company'')"
    and cold_entry: "cache (llmCache world_cold) (cold_key ''sales@vendor.com'')
                       = Some \<lparr> data = cold_sales, timestamp = 1000 \<rparr>"
    and cold_clr: "fst (detectColdEmail env_anthropic vendor_sample ''m1'' None
                          (external_fetch store_body) (cleared world_cold)) = Inr cold_sales"
    and cold_none: "cache (llmCache world0) (cold_key ''sales@vendor.com'') = None"
    by code_simp+
  have 1: "fst (categorizeEmail env_anthropic vendor_sample ''m1'' None
                  (external_fetch store_snippet) world_categorized) =
           fst (categorizeEmail env_anthropic vendor_sample ''m1'' None
                  (external_fetch store_snippet) (cleared world_categorized))"
    using t [where w = world_categorized and f = store_snippet, THEN conjunct1]
      cat_entry cat_clr by simp
  have 2: "fst (categorizeEmail env_anthropic vendor_sample ''m1'' None
                  (external_fetch store_snippet)
                  (snd (categorizeEmail env_anthropic vendor_sample ''m1'' None
                          (external_fetch store_snippet) world0)\<lparr>now := 7200001\<rparr>)) =
           fst (categorizeEmail env_anthropic vendor_sample ''m1'' None
                  (external_fetch store_snippet) world0)"
    using t [where w = world0 and f = store_snippet, THEN conjunct2, THEN conjunct1]
      cat_none by blast
  have 3: "fst (detectColdEmail env_anthropic vendor_sample ''m1'' None
                  (external_fetch store_body) world_cold) =
           fst (detectColdEmail env_anthropic vendor_sample ''m1'' None
                  (external_fetch store_body) (cleared world_cold))"
    using t [where w = world_cold and f = store_body,
             THEN conjunct2, THEN conjunct2, THEN conjunct1]
      d1 cold_entry cold_clr by simp
  have 4: "fst (detectColdEmail env_anthropic vendor_sample ''m1'' None
                  (external_fetch store_body)
                  (snd (detectColdEmail env_anthropic vendor_sample ''m1'' None
                          (external_fetch store_body) world0)\<lparr>now := 7200001\<rparr>)) =
           fst (detectColdEmail env_anthropic vendor_sample ''m1'' None
                  (external_fetch store_body) world0)"
    using t [where w = world0 and f = store_body,
             THEN conjunct2, THEN conjunct2, THEN conjunct2, THEN conjunct1]
      d1 cold_none by auto
  have d2: "store_body ''m2''
              = Inr (''sales@vendor.com'', ''Re: invoice'', ''Attached is the invoice'')"
    and live: "entry_live world_cold (cold_key ''sales@vendor.com'')"
    by code_simp+
  have 5: "fst (detectColdEmail env_anthropic vendor_sample ''m2'' None
                  (external_fetch store_body) world_cold) = Inr cold_sales"
    using cache_transparent_for_identical_request
            [where env = env_anthropic and gen = vendor_sample and mid = "''m2''"
               and cats = None and prof = None and w = world_cold and f = store_body,
             THEN conjunct2, THEN conjunct2, THEN conjunct2, THEN conjunct2,
             THEN conjunct2, THEN conjunct2]
      d2 live cold_entry by fastforce
  from 1 2 3 4 5 live show ?thesis by blast
qed

section \<open>Failure isolation in the batch\<close>

lemma step_categorize_messageId:
  "step_categorize env gen ts mid d r0 w = (Inr r, w') \<Longrightarrow> messageId r = messageId r0"
  by (auto simp: step_categorize_def split: if_splits dest!: andThen_Inr)

lemma step_context_messageId:
  "step_context env gen ts mid d r0 w = (Inr r, w') \<Longrightarrow> messageId r = messageId r0"
  by (auto simp: step_context_def split: if_splits option.splits dest!: andThen_Inr)

lemma step_cold_messageId:
  "step_cold env gen ts mid d r0 w = (Inr r, w') \<Longrightarrow> messageId r = messageId r0"
  by (auto simp: step_cold_def split: if_splits option.splits dest!: andThen_Inr)

lemma process_item_messageId:
  assumes "process_item env gen ge ts mid w = (Inr r, w')"
  shows "messageId r = mid"
proof -
  from assms obtain d w1 r1 w2 r2 w3 where
    "step_categorize env gen ts mid d
       \<lparr> messageId = mid, item_category = None, item_context = None,
         item_coldDetection = None \<rparr> w1 = (Inr r1, w2)"
    "step_context env gen ts mid d r1 w2 = (Inr r2, w3)"
    "step_cold env gen ts mid d r2 w3 = (Inr r, w')"
    unfolding process_item_def
    by (auto dest!: andThen_Inr)
  then show ?thesis
    by (auto dest!: step_categorize_messageId step_context_messageId step_cold_messageId)
qed

lemma batch_loop_ids:
  "map messageId (fst (batch_loop env gen ge ts ids acc w)) =
   map messageId acc @
   map fst (filter (\<lambda>p. \<not> item_raises env gen ge ts p)
              (zip ids (item_worlds env gen ge ts ids w)))"
proof (induction ids arbitrary: acc w)
  case Nil
  then show ?case by simp
next
  case (Cons mid rest)
  obtain x w' where run: "process_item env gen ge ts mid w = (x, w')"
    by (cases "process_item env gen ge ts mid w")
  show ?case
  proof (cases x)
    case (Inl e)
    with run Cons.IH show ?thesis
      by (simp add: after_item_def item_raises_def)
  next
    case (Inr r)
    with run have "messageId r = mid" by (auto dest: process_item_messageId)
    with Inr run Cons.IH show ?thesis
      by (simp add: after_item_def item_raises_def)
  qed
qed

lemma subseq_map_fst_filter_zip: "subseq (map fst (filter P (zip xs ys))) xs"
proof (induction xs arbitrary: ys)
  case Nil
  then show ?case by simp
next
  case (Cons x xs)
  then show ?case by (cases ys) auto
qed

lemma fetch_failure_raises:
  "isl (fst (ge mid w)) \<Longrightarrow> isl (fst (process_item env gen ge ts mid w))"
  by (cases "ge mid w") (auto simp: process_item_def andThen_def split: sum.splits)

text \<open>
  Claim C1. \<^verbatim>\<open>batchAnalyzeEmails\<close> always returns an outcome (its model has no error
  result: every throw is inside the \<^verbatim>\<open>try\<close> block). The identifiers of the returned
  records are exactly the input identifiers whose processing did not raise in the world
  it started from, in input order; so they are a subsequence of the input, and an
  identifier whose fetch fails is absent.
\<close>

theorem batch_isolates_failed_items:
  "map messageId (results (fst (batchAnalyzeEmails env gen ids ts opts ge w))) =
     map fst (filter (\<lambda>p. \<not> item_raises env gen ge ts p)
                (zip ids (item_worlds env gen ge ts ids w))) \<and>
   subseq (map messageId (results (fst (batchAnalyzeEmails env gen ids ts opts ge w)))) ids \<and>
   (\<forall>mid. (\<forall>w'. isl (fst (ge mid w'))) \<longrightarrow>
      mid \<notin> set (map messageId (results (fst (batchAnalyzeEmails env gen ids ts opts ge w)))))"
proof -
  let ?rs = "results (fst (batchAnalyzeEmails env gen ids ts opts ge w))"
  let ?sel = "filter (\<lambda>p. \<not> item_raises env gen ge ts p)
                (zip ids (item_worlds env gen ge ts ids w))"
  have rs: "?rs = fst (batch_loop env gen ge ts ids [] w)"
    by (simp add: batchAnalyzeEmails_def split: prod.splits)
  have ids: "map messageId ?rs = map fst ?sel"
    unfolding rs using batch_loop_ids [of env gen ge ts ids "[]" w] by simp
  have sub: "subseq (map messageId ?rs) ids"
    unfolding ids by (rule subseq_map_fst_filter_zip)
  have absent: "mid \<notin> set (map messageId ?rs)" if fails: "\<forall>w'. isl (fst (ge mid w'))" for mid
  proof
    assume "mid \<in> set (map messageId ?rs)"
    then obtain p where "p \<in> set ?sel" "fst p = mid" unfolding ids by auto
    then have "\<not> item_raises env gen ge ts p" "fst p = mid" by auto
    moreover from fails have "isl (fst (process_item env gen ge ts mid (snd p)))"
      by (simp add: fetch_failure_raises)
    ultimately show False by (simp add: item_raises_def)
  qed
  from ids sub absent show ?thesis by blast
qed

text \<open>
  Witness for C1: of the three identifiers \<^verbatim>\<open>m3\<close>, \<^verbatim>\<open>m404\<close>, \<^verbatim>\<open>m1\<close> the second is not
  in the store; the batch returns the records of \<^verbatim>\<open>m3\<close> and \<^verbatim>\<open>m1\<close>, in this order.
\<close>

theorem batch_isolates_failed_items_witness:
  "map messageId
     (results (fst (batchAnalyzeEmails env_anthropic vendor_sample
                      [''m3'', ''m404'', ''m1''] [AT_categorize]
                      (Some summary_on) (external_fetch store_sample) world0)))
     = [''m3'', ''m1''] \<and>
   ''m404'' \<notin> set (map messageId
     (results (fst (batchAnalyzeEmails env_anthropic vendor_sample
                      [''m3'', ''m404'', ''m1''] [AT_categorize]
                      (Some summary_on) (external_fetch store_sample) world0))))"
proof -
  note iso = batch_isolates_failed_items
               [of env_anthropic vendor_sample "[''m3'', ''m404'', ''m1'']"
                   "[AT_categorize]" "Some summary_on"
                   "external_fetch store_sample" world0]
  have sel: "map fst (filter (\<lambda>p. \<not> item_raises env_anthropic vendor_sample
                                      (external_fetch store_sample)
                                      [AT_categorize] p)
                (zip [''m3'', ''m404'', ''m1'']
                   (item_worlds env_anthropic vendor_sample (external_fetch store_sample)
                      [AT_categorize] [''m3'', ''m404'', ''m1'']
                      world0)))
             = [''m3'', ''m1'']"
    by code_simp
  have "store_sample ''m404'' = Inl (FetchFailed ''message not found'')"
    by code_simp
  then have fails: "\<forall>w'. isl (fst (external_fetch store_sample ''m404'' w'))"
    by (simp add: external_fetch_def)
  from iso sel have "map messageId
     (results (fst (batchAnalyzeEmails env_anthropic vendor_sample
                      [''m3'', ''m404'', ''m1''] [AT_categorize]
                      (Some summary_on) (external_fetch store_sample) world0)))
     = [''m3'', ''m1'']"
    by simp
  moreover from iso fails have "''m404'' \<notin> set (map messageId
     (results (fst (batchAnalyzeEmails env_anthropic vendor_sample
                      [''m3'', ''m404'', ''m1''] [AT_categorize]
                      (Some summary_on) (external_fetch store_sample) world0))))"
    by blast
  ultimately show ?thesis by (rule conjI)
qed

section \<open>The batch size bound\<close>

text \<open>
  Claim C5. A \<^verbatim>\<open>batch_analyze_emails\<close> request with more than 50 identifiers is rejected
  by the schema, and the world is unchanged: no fetch, no vendor call, no item processed.
\<close>

theorem oversized_batch_rejected:
  "length (raw_messageIds raw) > 50 \<Longrightarrow>
   batch_analyze_emails env gen ge raw w = (Inl (ZodError ''messageIds''), w)"
  by (simp add: batch_analyze_emails_def BatchAnalyzeEmailsSchema_parse_def)

text \<open>Witness for C5: a request with 51 identifiers is rejected with an empty trace.\<close>

theorem oversized_batch_rejected_witness:
  "length (raw_messageIds request51) = 51 \<and>
   fst (batch_analyze_emails env_anthropic vendor_sample (external_fetch store_sample)
          request51 world0) = Inl (ZodError ''messageIds'') \<and>
   trace (snd (batch_analyze_emails env_anthropic vendor_sample (external_fetch store_sample)
                 request51 world0)) = []"
proof -
  have len: "length (raw_messageIds request51) = 51"
    by (simp add: request51_def)
  then have "length (raw_messageIds request51) > 50" by simp
  from oversized_batch_rejected [OF this, of env_anthropic vendor_sample
         "external_fetch store_sample" world0] len
  show ?thesis by (simp add: world0_def)
qed

section \<open>The summary default\<close>

text \<open>
  Claim C6 at a request without \<^verbatim>\<open>options\<close>: the schema leaves the absent \<^verbatim>\<open>options\<close>
  absent (the default \<^verbatim>\<open>generateSummary = true\<close> is filled in only inside a given
  \<^verbatim>\<open>options\<close> object), and \<^verbatim>\<open>batchAnalyzeEmails\<close> then returns the empty summary and no
  recommended actions, where the same request with the summary enabled returns both.
\<close>

theorem summary_skipped_when_options_omitted:
  "summary (fst (batchAnalyzeEmails env_anthropic vendor_sample [''m1'']
                   [AT_categorize, AT_cold_detection] None (external_fetch store_sample) world0))
     = [] \<and>
   recommendedActions
     (fst (batchAnalyzeEmails env_anthropic vendor_sample [''m1'']
             [AT_categorize, AT_cold_detection] None (external_fetch store_sample) world0))
     = [] \<and>
   summary (fst (batchAnalyzeEmails env_anthropic vendor_sample [''m1'']
                   [AT_categorize, AT_cold_detection] (Some summary_on)
                   (external_fetch store_sample) world0))
     = ''Analyzed 1 emails:\<newline>- WORK: 1\<newline>\<newline>1 cold emails detected'' \<and>
   recommendedActions
     (fst (batchAnalyzeEmails env_anthropic vendor_sample [''m1'']
             [AT_categorize, AT_cold_detection] (Some summary_on)
             (external_fetch store_sample) world0))
     = [\<lparr> ra_messageId = ''m1'', action = ''ARCHIVE'',
          ra_reasoning = ''Cold SALES email: unsolicited pitch'' \<rparr>] \<and>
   BatchAnalyzeEmailsSchema_parse
     \<lparr> raw_messageIds = [''m1''], raw_analysisTypes = [''categorize'', ''cold_detection''],
       raw_options = None \<rparr>
     = Inr ([''m1''], [AT_categorize, AT_cold_detection], None) \<and>
   BatchAnalyzeEmailsSchema_parse
     \<lparr> raw_messageIds = [''m1''], raw_analysisTypes = [''categorize'', ''cold_detection''],
       raw_options = Some \<lparr> raw_autoApplyLabels = None, raw_generateSummary = None \<rparr> \<rparr>
     = Inr ([''m1''], [AT_categorize, AT_cold_detection], Some summary_on)"
  by code_simp

section \<open>Effects of a failed item\<close>





























end
